theory Spec2Isabelle
  imports Main "HOL-Library.Word" "HOL-Library.Char_ord" "HOL-Library.List_Lexorder"
begin

unbundle bit_operations_syntax

section \<open>JavaScript values and objects\<close>

text \<open>
  Document data, stored records and parsed provider replies are untyped JavaScript values.
  An object is its list of own properties in insertion order; a well-formed object has
  pairwise distinct keys. Numbers are integers (floating point is outside the embedding),
  strings are lists of 8-bit characters.
\<close>

datatype jsval =
    JUndefined
  | JNull
  | JBool bool
  | JNum int
  | JStr string
  | JArr "jsval list"
  | JObj "(string \<times> jsval) list"

type_synonym jsobj = "(string \<times> jsval) list"

datatype jstype = TyUndefined | TyObject | TyBoolean | TyNumber | TyString

fun typeof :: "jsval \<Rightarrow> jstype" where
  "typeof JUndefined = TyUndefined"
| "typeof JNull = TyObject"
| "typeof (JBool b) = TyBoolean"
| "typeof (JNum n) = TyNumber"
| "typeof (JStr s) = TyString"
| "typeof (JArr xs) = TyObject"
| "typeof (JObj ps) = TyObject"

text \<open>\<open>Object.keys(ob)\<close>, \<open>ob[k]\<close> and \<open>ob[k] = v\<close> on a plain object.\<close>

definition obj_keys :: "(string \<times> 'v) list \<Rightarrow> string list" where
  "obj_keys ob = map fst ob"

definition obj_get :: "jsobj \<Rightarrow> string \<Rightarrow> jsval" where
  "obj_get ob k = (case map_of ob k of None \<Rightarrow> JUndefined | Some v \<Rightarrow> v)"

fun obj_set :: "(string \<times> 'v) list \<Rightarrow> string \<Rightarrow> 'v \<Rightarrow> (string \<times> 'v) list" where
  "obj_set [] k v = [(k, v)]"
| "obj_set ((k', v') # ob) k v =
     (if k' = k then (k, v) # ob else (k', v') # obj_set ob k v)"

text \<open>Property read \<open>v.k\<close> and the operator \<open>k in v\<close> (used on objects only).\<close>

fun js_prop :: "jsval \<Rightarrow> string \<Rightarrow> jsval" where
  "js_prop (JObj ps) k = obj_get ps k"
| "js_prop v k = JUndefined"

fun js_in :: "string \<Rightarrow> jsval \<Rightarrow> bool" where
  "js_in k (JObj ps) = (k \<in> set (obj_keys ps))"
| "js_in k v = False"

text \<open>JavaScript truthiness, as used by \<open>!x\<close> and \<open>x || y\<close>.\<close>

fun truthy :: "jsval \<Rightarrow> bool" where
  "truthy JUndefined = False"
| "truthy JNull = False"
| "truthy (JBool b) = b"
| "truthy (JNum n) = (n \<noteq> 0)"
| "truthy (JStr s) = (s \<noteq> [])"
| "truthy (JArr xs) = True"
| "truthy (JObj ps) = True"

section \<open>Field classifier (core/src/utils.ts)\<close>

datatype SchemaType =
    T_string
  | T_string_array
  | T_number
  | T_number_array
  | T_boolean
  | T_object
  | T_object_array
  | T_object_or_null
  | T_DocumentReference
  | T_DocumentReference_array

definition isDocumentReference :: "jsval \<Rightarrow> bool" where
  "isDocumentReference v \<longleftrightarrow>
     v \<noteq> JNull \<and> typeof v = TyObject \<and> js_in ''path'' v \<and>
     typeof (js_prop v ''path'') = TyString \<and> js_in ''id'' v"

definition isTimestamp :: "jsval \<Rightarrow> bool" where
  "isTimestamp v \<longleftrightarrow>
     v \<noteq> JNull \<and> typeof v = TyObject \<and> js_in ''_seconds'' v \<and> js_in ''_nanoseconds'' v"

definition isGeoPoint :: "jsval \<Rightarrow> bool" where
  "isGeoPoint v \<longleftrightarrow>
     v \<noteq> JNull \<and> typeof v = TyObject \<and> js_in ''latitude'' v \<and> js_in ''longitude'' v"

definition detectArrayType :: "jsval list \<Rightarrow> SchemaType" where
  "detectArrayType items =
     (case items of
        [] \<Rightarrow> T_string_array
      | firstItem # _ \<Rightarrow>
          if isDocumentReference firstItem then T_DocumentReference_array
          else if typeof firstItem = TyString then T_string_array
          else if typeof firstItem = TyNumber then T_number_array
          else if typeof firstItem = TyObject \<and> firstItem \<noteq> JNull then T_object_array
          else T_string_array)"

definition detectFieldType :: "jsval \<Rightarrow> SchemaType" where
  "detectFieldType v =
     (if v = JNull then T_object_or_null
      else case v of
        JArr items \<Rightarrow> detectArrayType items
      | _ \<Rightarrow>
          if isDocumentReference v then T_DocumentReference
          else if isTimestamp v then T_object
          else if isGeoPoint v then T_object
          else if typeof v = TyString then T_string
          else if typeof v = TyNumber then T_number
          else if typeof v = TyBoolean then T_boolean
          else if typeof v = TyObject then T_object
          else T_object)"

definition isTranslatableType :: "SchemaType \<Rightarrow> bool" where
  "isTranslatableType schemaType \<longleftrightarrow> schemaType = T_string \<or> schemaType = T_string_array"

record SeparatedContent =
  translatable :: jsobj
  nonTranslatable :: jsobj
  detectedTypes :: "(string \<times> SchemaType) list"

text \<open>
  The loop of \<open>separateContent\<close> over \<open>Object.entries(doc)\<close>. \<open>flds\<close> is the
  optional argument \<open>fields\<close>: \<open>None\<close> when it is omitted; an array, even an empty
  one, is truthy.
\<close>

definition fieldExcluded :: "string list option \<Rightarrow> string \<Rightarrow> bool" where
  "fieldExcluded flds field =
     (case flds of None \<Rightarrow> False | Some fs \<Rightarrow> field \<notin> set fs)"

fun separateLoop ::
  "string list option \<Rightarrow> jsobj \<Rightarrow> SeparatedContent \<Rightarrow> SeparatedContent" where
  "separateLoop flds [] acc = acc"
| "separateLoop flds ((field, v) # rest) acc =
     (if field = ''_melaka'' then separateLoop flds rest acc
      else if fieldExcluded flds field then
        separateLoop flds rest
          (acc\<lparr>nonTranslatable := obj_set (nonTranslatable acc) field v\<rparr>)
      else
        let schemaType = detectFieldType v;
            acc' = acc\<lparr>detectedTypes := obj_set (detectedTypes acc) field schemaType\<rparr>
        in if isTranslatableType schemaType then
             separateLoop flds rest (acc'\<lparr>translatable := obj_set (translatable acc') field v\<rparr>)
           else
             separateLoop flds rest
               (acc'\<lparr>nonTranslatable := obj_set (nonTranslatable acc') field v\<rparr>))"

definition separateContent :: "jsobj \<Rightarrow> string list option \<Rightarrow> SeparatedContent" where
  "separateContent doc flds =
     separateLoop flds doc \<lparr>translatable = [], nonTranslatable = [], detectedTypes = []\<rparr>"

section \<open>Content fingerprint (core/src/utils.ts)\<close>

subsection \<open>\<open>JSON.stringify\<close> with an array replacer\<close>

definition hexdigit :: "nat \<Rightarrow> char" where
  "hexdigit d = ''0123456789abcdef'' ! (d mod 16)"

function show_nat :: "nat \<Rightarrow> string" where
  "show_nat n = (if n < 10 then [hexdigit n] else show_nat (n div 10) @ [hexdigit (n mod 10)])"
  by pat_completeness auto
termination
  by (relation "measure id") auto

declare show_nat.simps [simp del]

definition show_int :: "int \<Rightarrow> string" where
  "show_int i = (if i < 0 then CHR ''-'' # show_nat (nat (- i)) else show_nat (nat i))"

text \<open>
  \<open>QuoteJSONString\<close>: the double quote and the backslash are escaped with a backslash,
  the control characters below 0x20 are written \<open>\b \t \n \f \r\<close> or \<open>\u00hh\<close>, every other
  character stands for itself.
\<close>

definition json_escape :: "char \<Rightarrow> string" where
  "json_escape c =
     (if c = CHR 0x08 then [CHR 0x5C, CHR ''b'']
      else if c = CHR 0x09 then [CHR 0x5C, CHR ''t'']
      else if c = CHR 0x0A then [CHR 0x5C, CHR ''n'']
      else if c = CHR 0x0C then [CHR 0x5C, CHR ''f'']
      else if c = CHR 0x0D then [CHR 0x5C, CHR ''r'']
      else if c = CHR 0x22 then [CHR 0x5C, CHR 0x22]
      else if c = CHR 0x5C then [CHR 0x5C, CHR 0x5C]
      else if (of_char c :: nat) < 32 then
        [CHR 0x5C, CHR ''u'', CHR ''0'', CHR ''0'',
         hexdigit ((of_char c :: nat) div 16), hexdigit ((of_char c :: nat) mod 16)]
      else [c])"

definition json_quote :: "string \<Rightarrow> string" where
  "json_quote s = CHR 0x22 # concat (map json_escape s) @ [CHR 0x22]"

fun join_comma :: "string list \<Rightarrow> string" where
  "join_comma [] = []"
| "join_comma [x] = x"
| "join_comma (x # y # zs) = x @ CHR '','' # join_comma (y # zs)"

text \<open>
  \<open>SerializeJSONObject\<close> with a property list \<open>K\<close>: the members are written in the order of
  \<open>K\<close>, for the keys of \<open>K\<close> whose value in this object serializes to something; \<open>sps\<close> holds
  the object's own properties with their serialized values (\<open>None\<close> for \<open>undefined\<close>).
\<close>

definition json_members :: "string list \<Rightarrow> (string \<times> string option) list \<Rightarrow> string list" where
  "json_members K sps =
     List.map_filter
       (\<lambda>k. case map_of sps k of
              Some (Some str) \<Rightarrow> Some (json_quote k @ CHR '':'' # str)
            | _ \<Rightarrow> None) K"

text \<open>
  \<open>SerializeJSONProperty\<close>: \<open>None\<close> is the result \<open>undefined\<close>. The property list applies
  to every object of the value, at every depth; an array writes \<open>null\<close> for an element
  that serializes to \<open>undefined\<close>.
\<close>

fun json_ser :: "string list \<Rightarrow> jsval \<Rightarrow> string option" where
  "json_ser K JUndefined = None"
| "json_ser K JNull = Some ''null''"
| "json_ser K (JBool b) = Some (if b then ''true'' else ''false'')"
| "json_ser K (JNum n) = Some (show_int n)"
| "json_ser K (JStr s) = Some (json_quote s)"
| "json_ser K (JArr xs) =
     Some (CHR ''['' # join_comma
        (map (\<lambda>x. case json_ser K x of None \<Rightarrow> ''null'' | Some str \<Rightarrow> str) xs) @ '']'')"
| "json_ser K (JObj ps) =
     Some (CHR ''{'' # join_comma
        (json_members K (map (\<lambda>(k, v). (k, json_ser K v)) ps)) @ ''}'')"

definition JSON_stringify :: "jsval \<Rightarrow> string list \<Rightarrow> string option" where
  "JSON_stringify v replacer = json_ser replacer v"

subsection \<open>SHA-256 (the digest of Node's \<open>createHash('sha256')\<close>, FIPS 180-4)\<close>

text \<open>The round constants and the initial hash value, as decimal numbers.\<close>

definition sha_K :: "32 word list" where
  "sha_K = [
   1116352408, 1899447441, 3049323471, 3921009573, 961987163, 1508970993, 2453635748, 2870763221,
   3624381080, 310598401, 607225278, 1426881987, 1925078388, 2162078206, 2614888103, 3248222580,
   3835390401, 4022224774, 264347078, 604807628, 770255983, 1249150122, 1555081692, 1996064986,
   2554220882, 2821834349, 2952996808, 3210313671, 3336571891, 3584528711, 113926993, 338241895,
   666307205, 773529912, 1294757372, 1396182291, 1695183700, 1986661051, 2177026350, 2456956037,
   2730485921, 2820302411, 3259730800, 3345764771, 3516065817, 3600352804, 4094571909, 275423344,
   430227734, 506948616, 659060556, 883997877, 958139571, 1322822218, 1537002063, 1747873779,
   1955562222, 2024104815, 2227730452, 2361852424, 2428436474, 2756734187, 3204031479, 3329325298]"

definition sha_H0 :: "32 word list" where
  "sha_H0 = [1779033703, 3144134277, 1013904242, 2773480762,
             1359893119, 2600822924, 528734635, 1541459225]"

definition rotr :: "nat \<Rightarrow> 32 word \<Rightarrow> 32 word" where
  "rotr n x = drop_bit n x OR push_bit (32 - n) x"

definition sha_Ch :: "32 word \<Rightarrow> 32 word \<Rightarrow> 32 word \<Rightarrow> 32 word" where
  "sha_Ch x y z = (x AND y) XOR (NOT x AND z)"

definition sha_Maj :: "32 word \<Rightarrow> 32 word \<Rightarrow> 32 word \<Rightarrow> 32 word" where
  "sha_Maj x y z = (x AND y) XOR (x AND z) XOR (y AND z)"

definition bsig0 :: "32 word \<Rightarrow> 32 word" where
  "bsig0 x = rotr 2 x XOR rotr 13 x XOR rotr 22 x"

definition bsig1 :: "32 word \<Rightarrow> 32 word" where
  "bsig1 x = rotr 6 x XOR rotr 11 x XOR rotr 25 x"

definition ssig0 :: "32 word \<Rightarrow> 32 word" where
  "ssig0 x = rotr 7 x XOR rotr 18 x XOR drop_bit 3 x"

definition ssig1 :: "32 word \<Rightarrow> 32 word" where
  "ssig1 x = rotr 17 x XOR rotr 19 x XOR drop_bit 10 x"

text \<open>The \<open>n\<close> low bytes of \<open>x\<close>, most significant first.\<close>

fun be_bytes :: "nat \<Rightarrow> nat \<Rightarrow> nat list" where
  "be_bytes 0 x = []"
| "be_bytes (Suc n) x = be_bytes n (x div 256) @ [x mod 256]"

definition sha_pad :: "nat list \<Rightarrow> nat list" where
  "sha_pad bs =
     bs @ [128] @ replicate ((119 - length bs mod 64) mod 64) 0 @ be_bytes 8 (8 * length bs)"

fun words_of :: "nat list \<Rightarrow> 32 word list" where
  "words_of (a # b # c # d # rest) =
     word_of_nat (((a * 256 + b) * 256 + c) * 256 + d) # words_of rest"
| "words_of _ = []"

fun blocks_of :: "nat \<Rightarrow> 32 word list \<Rightarrow> 32 word list list" where
  "blocks_of 0 ws = []"
| "blocks_of (Suc n) ws = take 16 ws # blocks_of n (drop 16 ws)"

text \<open>The message schedule, newest word first.\<close>

fun sha_schedule :: "nat \<Rightarrow> 32 word list \<Rightarrow> 32 word list" where
  "sha_schedule 0 ws = ws"
| "sha_schedule (Suc n) ws =
     sha_schedule n ((ssig1 (ws ! 1) + ws ! 6 + ssig0 (ws ! 14) + ws ! 15) # ws)"

fun sha_round :: "32 word list \<Rightarrow> 32 word \<times> 32 word \<Rightarrow> 32 word list" where
  "sha_round [a, b, c, d, e, f, g, h] (k, w) =
     (let t1 = h + bsig1 e + sha_Ch e f g + k + w;
          t2 = bsig0 a + sha_Maj a b c
      in [t1 + t2, a, b, c, d + t1, e, f, g])"
| "sha_round st kw = st"

definition sha_compress :: "32 word list \<Rightarrow> 32 word list \<Rightarrow> 32 word list" where
  "sha_compress h block =
     map2 (+) h (foldl sha_round h (zip sha_K (rev (sha_schedule 48 (rev block)))))"

definition hex_byte :: "nat \<Rightarrow> string" where
  "hex_byte b = [hexdigit (b div 16), hexdigit (b mod 16)]"

definition hex32 :: "32 word \<Rightarrow> string" where
  "hex32 w = concat (map hex_byte (be_bytes 4 (unat w)))"

definition sha256 :: "string \<Rightarrow> string" where
  "sha256 s =
     (let ws = words_of (sha_pad (map of_char s))
      in concat (map hex32 (foldl sha_compress sha_H0 (blocks_of (length ws div 16) ws))))"

subsection \<open>\<open>hashContent\<close>\<close>

text \<open>
  \<open>Object.keys(content).sort()\<close> sorts the keys as strings, by code unit. The serialization
  of an object is never \<open>undefined\<close> (lemma \<open>JSON_stringify_object\<close> below), so the second
  branch is never taken.
\<close>

definition normalizedContent :: "jsobj \<Rightarrow> string option" where
  "normalizedContent content = JSON_stringify (JObj content) (sort (obj_keys content))"

definition hashContent :: "jsobj \<Rightarrow> string" where
  "hashContent content =
     (case normalizedContent content of
        Some normalized \<Rightarrow> sha256 normalized
      | None \<Rightarrow> sha256 [])"

text \<open>
  Content whose values are strings or arrays of strings, the shapes of translatable
  fields, in an object with pairwise distinct keys.
\<close>

fun isStringValue :: "jsval \<Rightarrow> bool" where
  "isStringValue (JStr s) = True"
| "isStringValue v = False"

fun isFlatValue :: "jsval \<Rightarrow> bool" where
  "isFlatValue (JStr s) = True"
| "isFlatValue (JArr xs) = list_all isStringValue xs"
| "isFlatValue v = False"

definition flatContent :: "jsobj \<Rightarrow> bool" where
  "flatContent content \<longleftrightarrow>
     distinct (obj_keys content) \<and> list_all (\<lambda>kv. isFlatValue (snd kv)) content"

section \<open>Output schemas (core/src/schema-generator.ts) and their validation by zod\<close>

text \<open>
  The zod schemas that \<open>createFieldSchema\<close> builds. \<open>ZObject\<close> is \<open>z.object(shape)\<close> in its
  default mode, which drops the keys of the input that the shape does not name;
  \<open>ZObjectPassthrough\<close> is \<open>z.object(shape).passthrough()\<close>, which keeps them;
  \<open>ZRecordUnknown\<close> is \<open>z.record(z.unknown())\<close>.
\<close>

datatype zschema =
    ZString
  | ZNumber
  | ZBoolean
  | ZUnknown
  | ZRecordUnknown
  | ZArray zschema
  | ZNullable zschema
  | ZOptional zschema
  | ZObject "(string \<times> zschema) list"
  | ZObjectPassthrough "(string \<times> zschema) list"

definition documentReferenceShape :: "(string \<times> zschema) list" where
  "documentReferenceShape = [(''path'', ZString), (''id'', ZString)]"

fun createFieldSchema :: "SchemaType \<Rightarrow> bool \<Rightarrow> zschema" where
  "createFieldSchema schemaType required =
     (let schema =
        (case schemaType of
           T_string \<Rightarrow> ZString
         | T_string_array \<Rightarrow> ZArray ZString
         | T_number \<Rightarrow> ZNumber
         | T_number_array \<Rightarrow> ZArray ZNumber
         | T_boolean \<Rightarrow> ZBoolean
         | T_object \<Rightarrow> ZRecordUnknown
         | T_object_array \<Rightarrow> ZArray ZRecordUnknown
         | T_object_or_null \<Rightarrow> ZNullable ZRecordUnknown
         | T_DocumentReference \<Rightarrow> ZObjectPassthrough documentReferenceShape
         | T_DocumentReference_array \<Rightarrow> ZArray (ZObjectPassthrough documentReferenceShape))
      in if required then schema else ZOptional schema)"

text \<open>
  \<open>createTranslationSchema\<close>: one required field per key of \<open>translatable\<close>, of the
  detected type, or \<open>string\<close> where none is recorded (\<open>detectedTypes[field] || 'string'\<close>).
\<close>

fun schemaFieldsLoop ::
  "(string \<times> SchemaType) list \<Rightarrow> string list \<Rightarrow> (string \<times> zschema) list
   \<Rightarrow> (string \<times> zschema) list" where
  "schemaFieldsLoop types [] schemaFields = schemaFields"
| "schemaFieldsLoop types (field # rest) schemaFields =
     (let schemaType = (case map_of types field of Some t \<Rightarrow> t | None \<Rightarrow> T_string)
      in schemaFieldsLoop types rest
           (obj_set schemaFields field (createFieldSchema schemaType True)))"

definition createTranslationSchema :: "jsobj \<Rightarrow> (string \<times> SchemaType) list \<Rightarrow> zschema" where
  "createTranslationSchema translatableContent types =
     ZObject (schemaFieldsLoop types (obj_keys translatableContent) [])"

text \<open>
  \<open>schema.safeParse(value)\<close>: \<open>Inr\<close> carries the parsed data, \<open>Inl\<close> a validation error. No
  schema coerces a value of another type. The error text is abbreviated to the message of
  the first issue that zod reports for the value.
\<close>

fun zodTypeName :: "jsval \<Rightarrow> string" where
  "zodTypeName JUndefined = ''undefined''"
| "zodTypeName JNull = ''null''"
| "zodTypeName (JBool b) = ''boolean''"
| "zodTypeName (JNum n) = ''number''"
| "zodTypeName (JStr s) = ''string''"
| "zodTypeName (JArr xs) = ''array''"
| "zodTypeName (JObj ps) = ''object''"

definition invalidType :: "string \<Rightarrow> jsval \<Rightarrow> string" where
  "invalidType expected v =
     (if v = JUndefined then ''Required''
      else ''Expected '' @ expected @ '', received '' @ zodTypeName v)"

fun collectParsed :: "(string + 'a) list \<Rightarrow> string + 'a list" where
  "collectParsed [] = Inr []"
| "collectParsed (Inl e # rs) = Inl e"
| "collectParsed (Inr x # rs) = (case collectParsed rs of Inl e \<Rightarrow> Inl e | Inr xs \<Rightarrow> Inr (x # xs))"

text \<open>
  The parsed fields of an object schema: a field whose parsed value is \<open>undefined\<close> and
  which the input does not have is left out of the data.
\<close>

definition keepField :: "jsobj \<Rightarrow> string \<times> jsval \<Rightarrow> bool" where
  "keepField input kv \<longleftrightarrow> snd kv \<noteq> JUndefined \<or> fst kv \<in> set (obj_keys input)"

definition unknownKeys :: "(string \<times> zschema) list \<Rightarrow> jsobj \<Rightarrow> jsobj" where
  "unknownKeys shape input = filter (\<lambda>kv. fst kv \<notin> set (map fst shape)) input"

fun safeParse :: "zschema \<Rightarrow> jsval \<Rightarrow> string + jsval" where
  "safeParse ZString v = (case v of JStr s \<Rightarrow> Inr v | _ \<Rightarrow> Inl (invalidType ''string'' v))"
| "safeParse ZNumber v = (case v of JNum n \<Rightarrow> Inr v | _ \<Rightarrow> Inl (invalidType ''number'' v))"
| "safeParse ZBoolean v = (case v of JBool b \<Rightarrow> Inr v | _ \<Rightarrow> Inl (invalidType ''boolean'' v))"
| "safeParse ZUnknown v = Inr v"
| "safeParse ZRecordUnknown v = (case v of JObj ps \<Rightarrow> Inr v | _ \<Rightarrow> Inl (invalidType ''object'' v))"
| "safeParse (ZArray t) v =
     (case v of
        JArr xs \<Rightarrow>
          (case collectParsed (map (safeParse t) xs) of
             Inl e \<Rightarrow> Inl e
           | Inr ys \<Rightarrow> Inr (JArr ys))
      | _ \<Rightarrow> Inl (invalidType ''array'' v))"
| "safeParse (ZNullable t) v = (if v = JNull then Inr JNull else safeParse t v)"
| "safeParse (ZOptional t) v = (if v = JUndefined then Inr JUndefined else safeParse t v)"
| "safeParse (ZObject shape) v =
     (case v of
        JObj ps \<Rightarrow>
          (case collectParsed
                  (map (\<lambda>(k, t). map_sum id (Pair k) (safeParse t (obj_get ps k))) shape) of
             Inl e \<Rightarrow> Inl e
           | Inr fs \<Rightarrow> Inr (JObj (filter (keepField ps) fs)))
      | _ \<Rightarrow> Inl (invalidType ''object'' v))"
| "safeParse (ZObjectPassthrough shape) v =
     (case v of
        JObj ps \<Rightarrow>
          (case collectParsed
                  (map (\<lambda>(k, t). map_sum id (Pair k) (safeParse t (obj_get ps k))) shape) of
             Inl e \<Rightarrow> Inl e
           | Inr fs \<Rightarrow> Inr (JObj (filter (keepField ps) fs @ unknownKeys shape ps)))
      | _ \<Rightarrow> Inl (invalidType ''object'' v))"

section \<open>Translation gateway (packages/ai)\<close>

subsection \<open>Extraction of JSON from a reply (ai/src/prompt.ts)\<close>

text \<open>
  The first occurrence of a pattern in a string: the text before it and the text after it.
\<close>

fun splitFirst :: "string \<Rightarrow> string \<Rightarrow> (string \<times> string) option" where
  "splitFirst pat [] = (if pat = [] then Some ([], []) else None)"
| "splitFirst pat (c # cs) =
     (if take (length pat) (c # cs) = pat then Some ([], drop (length pat) (c # cs))
      else map_option (\<lambda>(before, after). (c # before, after)) (splitFirst pat cs))"

definition isSpace :: "char \<Rightarrow> bool" where
  "isSpace c \<longleftrightarrow> c = CHR '' '' \<or> (9 \<le> (of_char c :: nat) \<and> (of_char c :: nat) \<le> 13)"

definition trim :: "string \<Rightarrow> string" where
  "trim s = rev (dropWhile isSpace (rev (dropWhile isSpace s)))"

text \<open>
  The capture group of \<open>/```(?:json)?\s*([\s\S]*?)```/\<close>: after the first fence, an
  optional \<open>json\<close> and white space are skipped, and the text up to the next fence is
  captured; there is no match without a second fence.
\<close>

definition codeBlockMatch :: "string \<Rightarrow> string option" where
  "codeBlockMatch response =
     (case splitFirst ''```'' response of
        None \<Rightarrow> None
      | Some (before, rest) \<Rightarrow>
          (let rest' = (if take 4 rest = ''json'' then drop 4 rest else rest)
           in map_option fst (splitFirst ''```'' (dropWhile isSpace rest'))))"

text \<open>The match of \<open>/\{[\s\S]*\}/\<close>: from the first opening brace to the last closing one.\<close>

definition jsonMatch :: "string \<Rightarrow> string option" where
  "jsonMatch response =
     (let fromBrace = dropWhile (\<lambda>c. c \<noteq> CHR ''{'') response;
          match = rev (dropWhile (\<lambda>c. c \<noteq> CHR ''}'') (rev fromBrace))
      in if match = [] then None else Some match)"

text \<open>
  \<open>extractJsonFromResponse\<close>. \<open>parse\<close> is the engine's \<open>JSON.parse\<close>: \<open>None\<close> when it throws a
  \<open>SyntaxError\<close>. \<open>Inl\<close> is the error the function throws.
\<close>

definition extractJsonFromResponse :: "(string \<Rightarrow> jsval option) \<Rightarrow> string \<Rightarrow> string + jsval" where
  "extractJsonFromResponse parse response =
     (case parse response of
        Some v \<Rightarrow> Inr v
      | None \<Rightarrow>
          (case Option.bind (codeBlockMatch response) (\<lambda>block. parse (trim block)) of
             Some v \<Rightarrow> Inr v
           | None \<Rightarrow>
               (case Option.bind (jsonMatch response) parse of
                  Some v \<Rightarrow> Inr v
                | None \<Rightarrow> Inl ''Failed to extract valid JSON from AI response'')))"

subsection \<open>The Gemini provider (ai/src/providers/gemini.ts)\<close>

text \<open>
  The configuration of a provider. The temperature only travels into the request body and
  is left out, as is the text of the prompt: the outcome of the request is a parameter.
\<close>

record ProviderConfig =
  pc_apiKey :: "string option"
  pc_model :: string

record Usage =
  inputTokens :: nat
  outputTokens :: nat
  totalTokens :: nat

record TranslationResponse =
  tr_success :: bool
  tr_output :: "jsval option"
  tr_error :: "string option"
  tr_usage :: "Usage option"
  tr_durationMs :: "nat option"

text \<open>
  What the provider reads of the body of a 2xx reply: the text of the first part of the
  first candidate (\<open>data.candidates?.[0]?.content?.parts?.[0]?.text\<close>) and the token counts.
\<close>

record UsageMetadata =
  promptTokenCount :: "nat option"
  candidatesTokenCount :: "nat option"
  totalTokenCount :: "nat option"

record GeminiResponse =
  gr_text :: "string option"
  gr_usageMetadata :: "UsageMetadata option"

text \<open>
  The outcome of the one \<open>fetch\<close> of a translation: the request is rejected (a network
  error); the reply is not 2xx, with its status and the text of \<open>JSON.stringify(errorData)\<close>;
  or the reply is 2xx and \<open>response.json()\<close> rejects or returns the body.
\<close>

datatype fetch_outcome =
    FetchRejected string
  | HttpNotOk nat string
  | HttpOk "string + GeminiResponse"

text \<open>
  The platform of one run: the engine's \<open>JSON.parse\<close>, the outcome of the request to the
  model, the value of \<open>Timestamp.now()\<close> and the two elapsed times that \<open>Date.now()\<close> gives
  (provider and pipeline).
\<close>

record platform =
  JSON_parse :: "string \<Rightarrow> jsval option"
  fetch :: fetch_outcome
  timestampNow :: jsval
  providerMs :: nat
  pipelineMs :: nat

definition isConfigured :: "ProviderConfig \<Rightarrow> bool" where
  "isConfigured config \<longleftrightarrow> (case pc_apiKey config of None \<Rightarrow> False | Some k \<Rightarrow> k \<noteq> [])"

definition orZero :: "nat option \<Rightarrow> nat" where
  "orZero n = (case n of None \<Rightarrow> 0 | Some k \<Rightarrow> k)"

definition usageOf :: "UsageMetadata option \<Rightarrow> Usage option" where
  "usageOf um =
     map_option (\<lambda>u. \<lparr>inputTokens = orZero (promptTokenCount u),
                     outputTokens = orZero (candidatesTokenCount u),
                     totalTokens = orZero (totalTokenCount u)\<rparr>) um"

definition failureResponse :: "string \<Rightarrow> nat option \<Rightarrow> TranslationResponse" where
  "failureResponse msg ms =
     \<lparr>tr_success = False, tr_output = None, tr_error = Some msg, tr_usage = None,
      tr_durationMs = ms\<rparr>"

text \<open>
  \<open>GeminiProvider.translate\<close>. Everything after the read of the clock is inside one
  \<open>try\<close>: a rejected request, a rejected \<open>response.json()\<close> and the error thrown by
  \<open>extractJsonFromResponse\<close> all end in the \<open>catch\<close>, which returns a failure with the
  error's message.
\<close>

definition GeminiProvider_translate ::
  "platform \<Rightarrow> ProviderConfig \<Rightarrow> jsobj \<Rightarrow> zschema \<Rightarrow> TranslationResponse" where
  "GeminiProvider_translate P config content schema =
     (if \<not> isConfigured config then failureResponse ''Gemini API key not configured'' None
      else case fetch P of
        FetchRejected msg \<Rightarrow> failureResponse msg (Some (providerMs P))
      | HttpNotOk status errorData \<Rightarrow>
          failureResponse (''Gemini API error: '' @ show_nat status @ '' '' @ errorData)
            (Some (providerMs P))
      | HttpOk (Inl msg) \<Rightarrow> failureResponse msg (Some (providerMs P))
      | HttpOk (Inr data) \<Rightarrow>
          (case gr_text data of
             None \<Rightarrow> failureResponse ''No response from Gemini'' (Some (providerMs P))
           | Some textResponse \<Rightarrow>
               if textResponse = [] then
                 failureResponse ''No response from Gemini'' (Some (providerMs P))
               else
                 (case extractJsonFromResponse (JSON_parse P) textResponse of
                    Inl msg \<Rightarrow> failureResponse msg (Some (providerMs P))
                  | Inr parsed \<Rightarrow>
                      (case safeParse schema parsed of
                         Inl zodMessage \<Rightarrow>
                           failureResponse (''Schema validation failed: '' @ zodMessage)
                             (Some (providerMs P))
                       | Inr validated \<Rightarrow>
                           \<lparr>tr_success = True, tr_output = Some validated, tr_error = None,
                            tr_usage = usageOf (gr_usageMetadata data),
                            tr_durationMs = Some (providerMs P)\<rparr>))))"

subsection \<open>The facade (ai/src/facade.ts)\<close>

text \<open>
  \<open>AIConfig\<close>, and the \<open>Partial<AIConfig>\<close> of a collection, where \<open>None\<close> is a key that is
  not set. The provider is the string of the configuration.
\<close>

record AIConfig =
  ai_provider :: string
  ai_model :: string
  ai_apiKey :: "string option"

record PartialAIConfig =
  pai_provider :: "string option"
  pai_model :: "string option"
  pai_apiKey :: "string option"

text \<open>\<open>createProvider\<close>: \<open>Inl\<close> is the \<open>Error\<close> it throws, with its message.\<close>

definition createProvider :: "AIConfig \<Rightarrow> string + ProviderConfig" where
  "createProvider aiConfig =
     (let providerConfig = \<lparr>pc_apiKey = ai_apiKey aiConfig, pc_model = ai_model aiConfig\<rparr>
      in if ai_provider aiConfig = ''gemini'' then Inr providerConfig
         else if ai_provider aiConfig = ''openai'' then
           Inl ''OpenAI provider not yet implemented. Use Gemini for MVP.''
         else if ai_provider aiConfig = ''claude'' then
           Inl ''Claude provider not yet implemented. Use Gemini for MVP.''
         else Inl (''Unknown AI provider: '' @ ai_provider aiConfig))"

text \<open>
  A \<open>TranslationFacade\<close> is its provider, and the only provider class is \<open>GeminiProvider\<close>;
  the constructor calls \<open>createProvider\<close> and lets its error through.
\<close>

definition createTranslationFacade :: "AIConfig \<Rightarrow> string + ProviderConfig" where
  "createTranslationFacade aiConfig = createProvider aiConfig"

definition facade_translate ::
  "platform \<Rightarrow> ProviderConfig \<Rightarrow> jsobj \<Rightarrow> zschema \<Rightarrow> TranslationResponse" where
  "facade_translate P facade content schema = GeminiProvider_translate P facade content schema"

definition facade_getModel :: "ProviderConfig \<Rightarrow> string" where
  "facade_getModel facade = pc_model facade"

text \<open>
  Creating the gateway for a configuration and calling \<open>translate\<close> on it, as one
  computation: \<open>Inl\<close> when an error is thrown on the way, \<open>Inr\<close> with the response otherwise.
\<close>

definition createAndTranslate ::
  "platform \<Rightarrow> AIConfig \<Rightarrow> jsobj \<Rightarrow> zschema \<Rightarrow> string + TranslationResponse" where
  "createAndTranslate P aiConfig content schema =
     (case createTranslationFacade aiConfig of
        Inl e \<Rightarrow> Inl e
      | Inr facade \<Rightarrow> Inr (facade_translate P facade content schema))"

section \<open>Record store (firestore/src/i18n.ts)\<close>

text \<open>
  The document store maps the path of a document to its data. Every call of the store may
  reject: \<open>outcomes\<close> lists what the calls still to come will do, in order (\<open>Some msg\<close>: the
  call rejects with that message and changes nothing; the empty list: every call is served).
  \<open>writes\<close> records the writes that the store has served, oldest first.
\<close>

datatype store_write =
    SetDoc string jsobj
  | UpdateDoc string "(string list \<times> jsval) list"

record world =
  docs :: "string \<Rightarrow> jsobj option"
  outcomes :: "string option list"
  writes :: "store_write list"

text \<open>
  An asynchronous computation on the store: it ends with a value (\<open>Inr\<close>) or with a thrown
  error, given by its message (\<open>Inl\<close>), and leaves the store in a new state.
\<close>

type_synonym 'a io = "world \<Rightarrow> (string + 'a) \<times> world"

definition io_return :: "'a \<Rightarrow> 'a io" where
  "io_return a w = (Inr a, w)"

definition io_throw :: "string \<Rightarrow> 'a io" where
  "io_throw e w = (Inl e, w)"

definition io_bind :: "'a io \<Rightarrow> ('a \<Rightarrow> 'b io) \<Rightarrow> 'b io" where
  "io_bind m f w = (case m w of (Inl e, w') \<Rightarrow> (Inl e, w') | (Inr a, w') \<Rightarrow> f a w')"

definition io_catch :: "'a io \<Rightarrow> (string \<Rightarrow> 'a io) \<Rightarrow> 'a io" where
  "io_catch m handler w = (case m w of (Inl e, w') \<Rightarrow> handler e w' | (Inr a, w') \<Rightarrow> (Inr a, w'))"

definition nextOutcome :: "world \<Rightarrow> string option \<times> world" where
  "nextOutcome w =
     (case outcomes w of [] \<Rightarrow> (None, w) | x # rest \<Rightarrow> (x, w\<lparr>outcomes := rest\<rparr>))"

text \<open>A nested field of a document, addressed by a field path such as \<open>_melaka.status\<close>.\<close>

fun setPath :: "jsobj \<Rightarrow> string list \<Rightarrow> jsval \<Rightarrow> jsobj" where
  "setPath ob [] v = ob"
| "setPath ob [k] v = obj_set ob k v"
| "setPath ob (k # k' # ks) v =
     obj_set ob k
       (JObj (setPath (case obj_get ob k of JObj ps \<Rightarrow> ps | _ \<Rightarrow> []) (k' # ks) v))"

definition applyUpdates :: "jsobj \<Rightarrow> (string list \<times> jsval) list \<Rightarrow> jsobj" where
  "applyUpdates ob updates = foldl (\<lambda>acc (path, v). setPath acc path v) ob updates"

text \<open>
  \<open>ref.get()\<close>, \<open>ref.set(data)\<close> (a full replacement) and \<open>ref.update(updates)\<close>, which
  rejects when the document does not exist.
\<close>

definition ref_get :: "string \<Rightarrow> (jsobj option) io" where
  "ref_get path w =
     (case nextOutcome w of
        (Some msg, w') \<Rightarrow> (Inl msg, w')
      | (None, w') \<Rightarrow> (Inr (docs w' path), w'))"

definition ref_set :: "string \<Rightarrow> jsobj \<Rightarrow> unit io" where
  "ref_set path data w =
     (case nextOutcome w of
        (Some msg, w') \<Rightarrow> (Inl msg, w')
      | (None, w') \<Rightarrow>
          (Inr (), w'\<lparr>docs := (docs w')(path \<mapsto> data),
                      writes := writes w' @ [SetDoc path data]\<rparr>))"

definition ref_update :: "string \<Rightarrow> (string list \<times> jsval) list \<Rightarrow> unit io" where
  "ref_update path updates w =
     (case nextOutcome w of
        (Some msg, w') \<Rightarrow> (Inl msg, w')
      | (None, w') \<Rightarrow>
          (case docs w' path of
             None \<Rightarrow> (Inl ''NOT_FOUND: No document to update'', w')
           | Some data \<Rightarrow>
               (Inr (), w'\<lparr>docs := (docs w')(path \<mapsto> applyUpdates data updates),
                           writes := writes w' @ [UpdateDoc path updates]\<rparr>)))"

text \<open>
  A document reference is given by its path; \<open>getI18nRef\<close> is the document \<open>locale\<close> of the
  subcollection \<open>i18n\<close>. Locales are document identifiers (the configuration schema only
  admits language codes), so the reference always exists.
\<close>

definition getI18nPath :: "string \<Rightarrow> string \<Rightarrow> string" where
  "getI18nPath docRef locale = docRef @ ''/i18n/'' @ locale"

definition getI18nRef :: "string \<Rightarrow> string \<Rightarrow> string" where
  "getI18nRef docRef locale = getI18nPath docRef locale"

definition readTranslation :: "string \<Rightarrow> string \<Rightarrow> (jsobj option) io" where
  "readTranslation docRef locale =
     io_bind (ref_get (getI18nRef docRef locale)) (\<lambda>snapshot. io_return snapshot)"

definition readMelakaMetadata :: "string \<Rightarrow> string \<Rightarrow> (jsval option) io" where
  "readMelakaMetadata docRef locale =
     io_bind (readTranslation docRef locale)
       (\<lambda>translation.
          case translation of
            None \<Rightarrow> io_return None
          | Some data \<Rightarrow>
              if \<not> truthy (obj_get data ''_melaka'') then io_return None
              else io_return (Some (obj_get data ''_melaka'')))"

text \<open>The own enumerable properties that an object spread copies.\<close>

fun ownEntries :: "jsval \<Rightarrow> jsobj" where
  "ownEntries (JObj ps) = ps"
| "ownEntries (JArr xs) = zip (map show_nat [0..<length xs]) xs"
| "ownEntries (JStr s) = zip (map show_nat [0..<length s]) (map (\<lambda>c. JStr [c]) s)"
| "ownEntries v = []"

definition obj_assign :: "jsobj \<Rightarrow> jsobj \<Rightarrow> jsobj" where
  "obj_assign target source = foldl (\<lambda>acc (k, v). obj_set acc k v) target source"

definition writeTranslation ::
  "string \<Rightarrow> string \<Rightarrow> jsval \<Rightarrow> jsobj \<Rightarrow> jsval \<Rightarrow> unit io" where
  "writeTranslation docRef locale translatedContent nonTranslatableContent metadata =
     (let finalDoc =
            obj_set (obj_assign (obj_assign [] (ownEntries translatedContent))
                       nonTranslatableContent) ''_melaka'' metadata
      in ref_set (getI18nRef docRef locale) finalDoc)"

definition failedUpdates :: "string \<Rightarrow> jsval \<Rightarrow> (string list \<times> jsval) list" where
  "failedUpdates err timestamp =
     [([''_melaka'', ''status''], JStr ''failed''),
      ([''_melaka'', ''error''], JStr err),
      ([''_melaka'', ''translated_at''], timestamp)]"

definition failedDocument :: "string \<Rightarrow> jsval \<Rightarrow> jsobj" where
  "failedDocument err timestamp =
     [(''_melaka'', JObj [(''status'', JStr ''failed''), (''error'', JStr err),
        (''translated_at'', timestamp), (''source_hash'', JStr []), (''model'', JStr []),
        (''reviewed'', JBool False)])]"

definition markTranslationFailed :: "string \<Rightarrow> string \<Rightarrow> string \<Rightarrow> jsval \<Rightarrow> unit io" where
  "markTranslationFailed docRef locale err timestamp =
     io_bind (ref_get (getI18nRef docRef locale))
       (\<lambda>existing.
          case existing of
            Some data \<Rightarrow> ref_update (getI18nRef docRef locale) (failedUpdates err timestamp)
          | None \<Rightarrow> ref_set (getI18nRef docRef locale) (failedDocument err timestamp))"

text \<open>
  A write that is a failed mark: it touches nothing but the metadata \<open>_melaka\<close> and sets
  its status to \<open>failed\<close>.
\<close>

fun isFailedMark :: "store_write \<Rightarrow> bool" where
  "isFailedMark (UpdateDoc path updates) =
     (map fst updates =
        [[''_melaka'', ''status''], [''_melaka'', ''error''], [''_melaka'', ''translated_at'']]
      \<and> map_of updates [''_melaka'', ''status''] = Some (JStr ''failed''))"
| "isFailedMark (SetDoc path data) =
     (obj_keys data = [''_melaka'']
      \<and> js_prop (obj_get data ''_melaka'') ''status'' = JStr ''failed'')"

text \<open>
  The write by which \<open>markTranslationFailed\<close> marks a record in the store \<open>w\<close>: an update of
  the metadata when the record exists, a minimal document otherwise.
\<close>

definition failedMarkOf :: "world \<Rightarrow> string \<Rightarrow> string \<Rightarrow> string \<Rightarrow> jsval \<Rightarrow> store_write" where
  "failedMarkOf w docRef locale err ts =
     (case docs w (getI18nRef docRef locale) of
        Some data \<Rightarrow> UpdateDoc (getI18nRef docRef locale) (failedUpdates err ts)
      | None \<Rightarrow> SetDoc (getI18nRef docRef locale) (failedDocument err ts))"

text \<open>
  The store serves the next \<open>n\<close> calls; and the record that a served failed mark leaves
  in the store \<open>w\<close>.
\<close>

definition storeServes :: "nat \<Rightarrow> world \<Rightarrow> bool" where
  "storeServes n w \<longleftrightarrow> list_all (\<lambda>x. x = None) (take n (outcomes w))"

definition failedRecord :: "world \<Rightarrow> string \<Rightarrow> string \<Rightarrow> string \<Rightarrow> jsval \<Rightarrow> jsobj" where
  "failedRecord w docRef locale err ts =
     (case docs w (getI18nRef docRef locale) of
        Some data \<Rightarrow> applyUpdates data (failedUpdates err ts)
      | None \<Rightarrow> failedDocument err ts)"

definition isTranslationCurrent :: "string \<Rightarrow> string \<Rightarrow> string \<Rightarrow> bool io" where
  "isTranslationCurrent docRef locale sourceHash =
     io_bind (readMelakaMetadata docRef locale)
       (\<lambda>metadata.
          case metadata of
            None \<Rightarrow> io_return False
          | Some m \<Rightarrow>
              io_return (js_prop m ''status'' = JStr ''completed''
                       \<and> js_prop m ''source_hash'' = JStr sourceHash))"

section \<open>Processing pipeline (firestore/src/processor.ts)\<close>

text \<open>
  The configuration, with the settings that the pipeline and the task queue read.
\<close>

record CollectionConfig =
  c_path :: string
  c_isCollectionGroup :: "bool option"
  c_fields :: "string list option"
  c_prompt :: "string option"
  c_glossary :: "(string \<times> string) list option"
  c_ai :: "PartialAIConfig option"
  c_batchSize :: "nat option"
  c_maxConcurrency :: "nat option"
  c_forceUpdate :: "bool option"

record MelakaConfig =
  m_languages :: "string list"
  m_ai :: AIConfig
  m_region :: "string option"
  m_glossary :: "(string \<times> string) list option"
  m_collections :: "CollectionConfig list"

record ProcessOptions =
  po_forceUpdate :: "bool option"
  po_timestamp :: "jsval option"

record ProcessResult =
  pr_success :: bool
  pr_skipped :: bool
  pr_error :: "string option"
  pr_durationMs :: "nat option"

text \<open>\<open>getEffectiveAIConfig\<close> (core/src/config.ts): the keys set by the collection win.\<close>

definition orElse :: "'a option \<Rightarrow> 'a \<Rightarrow> 'a" where
  "orElse x d = (case x of Some v \<Rightarrow> v | None \<Rightarrow> d)"

definition getEffectiveAIConfig :: "MelakaConfig \<Rightarrow> CollectionConfig \<Rightarrow> AIConfig" where
  "getEffectiveAIConfig rootConfig collection =
     (case c_ai collection of
        None \<Rightarrow> m_ai rootConfig
      | Some override \<Rightarrow>
          \<lparr>ai_provider = orElse (pai_provider override) (ai_provider (m_ai rootConfig)),
           ai_model = orElse (pai_model override) (ai_model (m_ai rootConfig)),
           ai_apiKey = (case pai_apiKey override of
                          Some k \<Rightarrow> Some k
                        | None \<Rightarrow> ai_apiKey (m_ai rootConfig))\<rparr>)"

definition optionIsTrue :: "bool option \<Rightarrow> bool" where
  "optionIsTrue b = (case b of Some True \<Rightarrow> True | _ \<Rightarrow> False)"

text \<open>\<open>options.timestamp || (await getTimestamp(docRef))\<close>; the second is a read of the clock.\<close>

definition timestampOf :: "platform \<Rightarrow> ProcessOptions \<Rightarrow> jsval" where
  "timestampOf P options =
     (case po_timestamp options of
        Some t \<Rightarrow> if truthy t then t else timestampNow P
      | None \<Rightarrow> timestampNow P)"

definition skippedResult :: "platform \<Rightarrow> ProcessResult" where
  "skippedResult P =
     \<lparr>pr_success = True, pr_skipped = True, pr_error = None, pr_durationMs = Some (pipelineMs P)\<rparr>"

definition failedResult :: "platform \<Rightarrow> string option \<Rightarrow> ProcessResult" where
  "failedResult P err =
     \<lparr>pr_success = False, pr_skipped = False, pr_error = err, pr_durationMs = Some (pipelineMs P)\<rparr>"

definition completedResult :: "platform \<Rightarrow> ProcessResult" where
  "completedResult P =
     \<lparr>pr_success = True, pr_skipped = False, pr_error = None, pr_durationMs = Some (pipelineMs P)\<rparr>"

definition metadataIsCurrent :: "jsval option \<Rightarrow> string \<Rightarrow> bool" where
  "metadataIsCurrent existingMetadata sourceHash =
     (case existingMetadata of
        None \<Rightarrow> False
      | Some m \<Rightarrow> js_prop m ''status'' = JStr ''completed''
                 \<and> js_prop m ''source_hash'' = JStr sourceHash)"

definition completedMetadata :: "string \<Rightarrow> jsval \<Rightarrow> string \<Rightarrow> jsval" where
  "completedMetadata sourceHash timestamp modelName =
     JObj [(''source_hash'', JStr sourceHash), (''translated_at'', timestamp),
           (''model'', JStr modelName), (''status'', JStr ''completed''),
           (''reviewed'', JBool False)]"

definition errorOrUnknown :: "string option \<Rightarrow> string" where
  "errorOrUnknown err =
     (case err of
        None \<Rightarrow> ''Unknown translation error''
      | Some e \<Rightarrow> if e = [] then ''Unknown translation error'' else e)"

definition outputMissing :: "jsval option \<Rightarrow> bool" where
  "outputMissing out = (case out of None \<Rightarrow> True | Some v \<Rightarrow> \<not> truthy v)"

text \<open>
  Steps 8 to 10 of \<open>processTranslation\<close>: what is done with the response of the gateway.
\<close>

definition handleResponse ::
  "platform \<Rightarrow> string \<Rightarrow> string \<Rightarrow> ProcessOptions \<Rightarrow> SeparatedContent \<Rightarrow> string \<Rightarrow>
   ProviderConfig \<Rightarrow> TranslationResponse \<Rightarrow> ProcessResult io" where
  "handleResponse P docRef targetLanguage options sep sourceHash facade response =
     (let timestamp = timestampOf P options
      in if \<not> tr_success response \<or> outputMissing (tr_output response) then
           io_bind
             (markTranslationFailed docRef targetLanguage
                (errorOrUnknown (tr_error response)) timestamp)
             (\<lambda>u. io_return (failedResult P (tr_error response)))
         else
           io_bind
             (writeTranslation docRef targetLanguage (orElse (tr_output response) JUndefined)
                (nonTranslatable sep)
                (completedMetadata sourceHash timestamp (facade_getModel facade)))
             (\<lambda>u. io_return (completedResult P)))"

text \<open>
  Steps 4 to 7: the schema, the effective configuration, the facade (whose constructor may
  throw) and the call of the gateway. The merged glossary and the prompt of the collection
  only shape the request, whose outcome is a parameter.
\<close>

definition translateAndStore ::
  "platform \<Rightarrow> string \<Rightarrow> string \<Rightarrow> MelakaConfig \<Rightarrow> CollectionConfig \<Rightarrow> ProcessOptions \<Rightarrow>
   SeparatedContent \<Rightarrow> string \<Rightarrow> ProcessResult io" where
  "translateAndStore P docRef targetLanguage config collectionConfig options sep sourceHash =
     (let schema = createTranslationSchema (translatable sep) (detectedTypes sep);
          aiConfig = getEffectiveAIConfig config collectionConfig
      in case createTranslationFacade aiConfig of
           Inl e \<Rightarrow> io_throw e
         | Inr facade \<Rightarrow>
             handleResponse P docRef targetLanguage options sep sourceHash facade
               (facade_translate P facade (translatable sep) schema))"

text \<open>
  Step 3: unless \<open>forceUpdate\<close> is set, the stored metadata is read and compared with the
  fingerprint of the source.
\<close>

definition alreadyCurrent :: "string \<Rightarrow> string \<Rightarrow> ProcessOptions \<Rightarrow> string \<Rightarrow> bool io" where
  "alreadyCurrent docRef targetLanguage options sourceHash =
     (if \<not> optionIsTrue (po_forceUpdate options) then
        io_bind (readMelakaMetadata docRef targetLanguage)
          (\<lambda>existingMetadata. io_return (metadataIsCurrent existingMetadata sourceHash))
      else io_return False)"

text \<open>The body of the \<open>try\<close> of \<open>processTranslation\<close>.\<close>

definition processTranslation_try ::
  "platform \<Rightarrow> string \<Rightarrow> jsobj \<Rightarrow> string \<Rightarrow> MelakaConfig \<Rightarrow> CollectionConfig \<Rightarrow>
   ProcessOptions \<Rightarrow> ProcessResult io" where
  "processTranslation_try P docRef docData targetLanguage config collectionConfig options =
     (let sep = separateContent docData (c_fields collectionConfig)
      in if obj_keys (translatable sep) = [] then io_return (skippedResult P)
         else
           let sourceHash = hashContent (translatable sep)
           in io_bind (alreadyCurrent docRef targetLanguage options sourceHash)
                (\<lambda>current.
                   if current then io_return (skippedResult P)
                   else translateAndStore P docRef targetLanguage config collectionConfig
                          options sep sourceHash))"

text \<open>
  The \<open>catch\<close>: the failed mark is attempted, an error of the attempt is ignored, and the
  failure is returned.
\<close>

definition processTranslation_catch ::
  "platform \<Rightarrow> string \<Rightarrow> string \<Rightarrow> ProcessOptions \<Rightarrow> string \<Rightarrow> ProcessResult io" where
  "processTranslation_catch P docRef targetLanguage options errorMessage =
     (let timestamp = timestampOf P options
      in io_bind
           (io_catch (markTranslationFailed docRef targetLanguage errorMessage timestamp)
              (\<lambda>ignored. io_return ()))
           (\<lambda>u. io_return (failedResult P (Some errorMessage))))"

definition processTranslation ::
  "platform \<Rightarrow> string \<Rightarrow> jsobj \<Rightarrow> string \<Rightarrow> MelakaConfig \<Rightarrow> CollectionConfig \<Rightarrow>
   ProcessOptions \<Rightarrow> ProcessResult io" where
  "processTranslation P docRef docData targetLanguage config collectionConfig options =
     io_catch
       (processTranslation_try P docRef docData targetLanguage config collectionConfig options)
       (processTranslation_catch P docRef targetLanguage options)"

section \<open>Task queue (firestore/src/queue.ts, task-handler.ts)\<close>

record TranslationTaskPayload =
  tp_collectionPath :: string
  tp_documentId :: string
  tp_targetLanguage :: string
  tp_config :: CollectionConfig
  tp_batchId :: string

definition createTaskPayload ::
  "string \<Rightarrow> string \<Rightarrow> string \<Rightarrow> CollectionConfig \<Rightarrow> string \<Rightarrow> TranslationTaskPayload" where
  "createTaskPayload collectionPath' documentId' targetLanguage' config' batchId' =
     \<lparr>tp_collectionPath = collectionPath', tp_documentId = documentId',
      tp_targetLanguage = targetLanguage', tp_config = config', tp_batchId = batchId'\<rparr>"

text \<open>
  \<open>generateBatchId\<close> (core/src/utils.ts): \<open>nowMs\<close> is the value of \<open>Date.now()\<close> and
  \<open>randomSuffix\<close> the six characters taken from \<open>Math.random()\<close>.
\<close>

definition generateBatchId :: "nat \<Rightarrow> string \<Rightarrow> string" where
  "generateBatchId nowMs randomSuffix = ''batch_'' @ show_nat nowMs @ ''_'' @ randomSuffix"

text \<open>
  The injected transport: \<open>enqueue\<close> takes the state of the queue, the payload and the
  option \<open>scheduleDelaySeconds\<close>; it returns \<open>Some msg\<close> when it rejects with that message,
  and the next state of the queue.
\<close>

type_synonym 'q TaskQueue = "'q \<Rightarrow> TranslationTaskPayload \<Rightarrow> nat \<Rightarrow> string option \<times> 'q"

record 'q EnqueueOptions =
  eo_queue :: "'q TaskQueue"
  eo_staggerDelayMs :: "nat option"

text \<open>
  The result of an enqueue, with the state of the queue afterwards and, for reference, the
  calls of \<open>queue.enqueue\<close> that were made, in order, each with its delay in seconds.
\<close>

record 'q EnqueueResult =
  er_batchId :: string
  tasksEnqueued :: nat
  failed :: nat
  errors :: "string list"
  queueAfter :: 'q
  handed :: "(TranslationTaskPayload \<times> nat) list"

text \<open>\<open>options.staggerDelayMs || 100\<close>: an absent or zero delay gives 100.\<close>

definition effectiveStagger :: "nat option \<Rightarrow> nat" where
  "effectiveStagger ms = (case ms of None \<Rightarrow> 100 | Some d \<Rightarrow> if d = 0 then 100 else d)"

definition scheduleDelaySeconds :: "nat \<Rightarrow> nat \<Rightarrow> nat" where
  "scheduleDelaySeconds i staggerDelay = (i * staggerDelay) div 1000"

text \<open>
  The loop of \<open>enqueueDocumentTranslation\<close>, from index \<open>i\<close> over the languages that
  remain: the body of the \<open>try\<close> builds the payload and calls the queue; the \<open>catch\<close> counts
  the failure and records its message.
\<close>

fun enqueueLoop ::
  "'q TaskQueue \<Rightarrow> string \<Rightarrow> string \<Rightarrow> CollectionConfig \<Rightarrow> nat \<Rightarrow> nat \<Rightarrow> string list \<Rightarrow>
   'q EnqueueResult \<Rightarrow> 'q EnqueueResult" where
  "enqueueLoop enq cPath docId cConfig staggerDelay i [] r = r"
| "enqueueLoop enq cPath docId cConfig staggerDelay i (language # rest) r =
     (let payload = createTaskPayload cPath docId language cConfig (er_batchId r);
          delay = scheduleDelaySeconds i staggerDelay;
          r' = r\<lparr>handed := handed r @ [(payload, delay)]\<rparr>
      in case enq (queueAfter r) payload delay of
           (None, q') \<Rightarrow>
             enqueueLoop enq cPath docId cConfig staggerDelay (Suc i) rest
               (r'\<lparr>queueAfter := q', tasksEnqueued := Suc (tasksEnqueued r')\<rparr>)
         | (Some msg, q') \<Rightarrow>
             enqueueLoop enq cPath docId cConfig staggerDelay (Suc i) rest
               (r'\<lparr>queueAfter := q', failed := Suc (failed r'),
                   errors := errors r' @
                     [''Failed to enqueue '' @ docId @ ''/'' @ language @ '': '' @ msg]\<rparr>))"

definition enqueueDocumentTranslation ::
  "nat \<Rightarrow> string \<Rightarrow> 'q \<Rightarrow> string \<Rightarrow> string \<Rightarrow> MelakaConfig \<Rightarrow> CollectionConfig \<Rightarrow>
   'q EnqueueOptions \<Rightarrow> 'q EnqueueResult" where
  "enqueueDocumentTranslation nowMs randomSuffix q0 cPath docId mConfig cConfig options =
     enqueueLoop (eo_queue options) cPath docId cConfig (effectiveStagger (eo_staggerDelayMs options))
       0 (m_languages mConfig)
       \<lparr>er_batchId = generateBatchId nowMs randomSuffix, tasksEnqueued = 0, failed = 0,
        errors = [], queueAfter = q0, handed = []\<rparr>"

text \<open>
  The calls that the loop makes from index \<open>i\<close>, the replies of the queue to a sequence of
  calls, and the messages recorded for the calls that were rejected.
\<close>

definition plannedCalls ::
  "string \<Rightarrow> string \<Rightarrow> CollectionConfig \<Rightarrow> string \<Rightarrow> nat \<Rightarrow> nat \<Rightarrow> string list \<Rightarrow>
   (TranslationTaskPayload \<times> nat) list" where
  "plannedCalls cPath docId cConfig bId staggerDelay i languages =
     map (\<lambda>(j, language).
            (createTaskPayload cPath docId language cConfig bId,
             scheduleDelaySeconds j staggerDelay))
       (zip [i..<i + length languages] languages)"

fun queueReplies ::
  "'q TaskQueue \<Rightarrow> 'q \<Rightarrow> (TranslationTaskPayload \<times> nat) list \<Rightarrow> string option list" where
  "queueReplies enq q [] = []"
| "queueReplies enq q ((payload, delay) # calls) =
     (case enq q payload delay of (reply, q') \<Rightarrow> reply # queueReplies enq q' calls)"

definition enqueueErrors ::
  "string \<Rightarrow> (TranslationTaskPayload \<times> nat) list \<Rightarrow> string option list \<Rightarrow> string list" where
  "enqueueErrors docId calls replies =
     List.map_filter
       (\<lambda>(call, reply).
          map_option
            (\<lambda>msg. ''Failed to enqueue '' @ docId @ ''/'' @ tp_targetLanguage (fst call)
                     @ '': '' @ msg) reply)
       (zip calls replies)"

section \<open>Example inputs\<close>

definition exampleTimestamp :: jsval where
  "exampleTimestamp = JObj [(''_seconds'', JNum 1700000000), (''_nanoseconds'', JNum 0)]"

definition examplePlatform :: platform where
  "examplePlatform =
     \<lparr>JSON_parse = (\<lambda>s. None), fetch = FetchRejected ''fetch failed'',
      timestampNow = exampleTimestamp, providerMs = 5, pipelineMs = 7\<rparr>"

definition exampleRecord :: jsobj where
  "exampleRecord =
     [(''title'', JStr ''Halo''),
      (''_melaka'', JObj [(''source_hash'', JStr ''h1''), (''status'', JStr ''completed'')])]"

definition exampleWorld :: world where
  "exampleWorld =
     \<lparr>docs = (\<lambda>p. if p = ''products/abc/i18n/ms-MY'' then Some exampleRecord else None),
      outcomes = [], writes = []\<rparr>"

definition exampleDocument :: jsobj where
  "exampleDocument = [(''title'', JStr ''Hello''), (''views'', JNum 10)]"

definition exampleCollection :: CollectionConfig where
  "exampleCollection =
     \<lparr>c_path = ''products'', c_isCollectionGroup = None, c_fields = None, c_prompt = None,
      c_glossary = None, c_ai = None, c_batchSize = None, c_maxConcurrency = None,
      c_forceUpdate = None\<rparr>"

definition exampleConfig :: "string \<Rightarrow> MelakaConfig" where
  "exampleConfig providerName =
     \<lparr>m_languages = [''ms-MY'', ''zh-CN'', ''ja-JP''],
      m_ai = \<lparr>ai_provider = providerName, ai_model = ''model-1'', ai_apiKey = Some ''key''\<rparr>,
      m_region = None, m_glossary = None, m_collections = [exampleCollection]\<rparr>"

definition noOptions :: ProcessOptions where
  "noOptions = \<lparr>po_forceUpdate = None, po_timestamp = None\<rparr>"

text \<open>
  A platform whose model replies with the text \<open>reply\<close>, which \<open>JSON.parse\<close> reads as
  \<open>parsed\<close>; a queue that accepts every task, and one that rejects the tasks of a locale.
\<close>

definition replyPlatform :: "string \<Rightarrow> jsval \<Rightarrow> platform" where
  "replyPlatform reply parsed =
     examplePlatform\<lparr>JSON_parse := (\<lambda>s. if s = reply then Some parsed else None),
                     fetch := HttpOk (Inr \<lparr>gr_text = Some reply, gr_usageMetadata = None\<rparr>)\<rparr>"

definition acceptingQueue :: "nat TaskQueue" where
  "acceptingQueue q payload delay = (None, Suc q)"

definition flakyQueue :: "nat TaskQueue" where
  "flakyQueue q payload delay =
     (if tp_targetLanguage payload = ''zh-CN'' then Some ''DEADLINE_EXCEEDED'' else None, Suc q)"

text \<open>The two filters that \<open>separateContent\<close> computes on an object.\<close>

definition goesTranslatable :: "string list option \<Rightarrow> string \<times> jsval \<Rightarrow> bool" where
  "goesTranslatable flds e \<longleftrightarrow>
     fst e \<noteq> ''_melaka'' \<and> \<not> fieldExcluded flds (fst e) \<and>
     isTranslatableType (detectFieldType (snd e))"

definition goesNonTranslatable :: "string list option \<Rightarrow> string \<times> jsval \<Rightarrow> bool" where
  "goesNonTranslatable flds e \<longleftrightarrow>
     fst e \<noteq> ''_melaka'' \<and>
     (fieldExcluded flds (fst e) \<or> \<not> isTranslatableType (detectFieldType (snd e)))"

section \<open>Properties of the field classifier\<close>

lemma obj_set_fresh: "k \<notin> set (map fst ob) \<Longrightarrow> obj_set ob k v = ob @ [(k, v)]"
  by (induction ob) auto

lemma separateLoop_filter:
  assumes "distinct (map fst rest)"
    and "set (map fst rest) \<inter> set (map fst (translatable acc)) = {}"
    and "set (map fst rest) \<inter> set (map fst (nonTranslatable acc)) = {}"
  shows "translatable (separateLoop flds rest acc) =
           translatable acc @ filter (goesTranslatable flds) rest
       \<and> nonTranslatable (separateLoop flds rest acc) =
           nonTranslatable acc @ filter (goesNonTranslatable flds) rest"
  using assms
proof (induction rest arbitrary: acc)
  case Nil
  then show ?case by simp
next
  case (Cons e rest)
  obtain field v where e: "e = (field, v)" by (cases e)
  from Cons.prems have d: "distinct (map fst rest)" and fr: "field \<notin> set (map fst rest)"
    and ft: "field \<notin> set (map fst (translatable acc))"
    and fn: "field \<notin> set (map fst (nonTranslatable acc))"
    and rt: "set (map fst rest) \<inter> set (map fst (translatable acc)) = {}"
    and rn: "set (map fst rest) \<inter> set (map fst (nonTranslatable acc)) = {}"
    by (auto simp: e)
  show ?case
  proof (cases "field = ''_melaka''")
    case True
    then show ?thesis
      using Cons.IH [OF d rt rn]
      by (simp add: e goesTranslatable_def goesNonTranslatable_def)
  next
    case nm: False
    show ?thesis
    proof (cases "fieldExcluded flds field")
      case True
      let ?acc = "acc\<lparr>nonTranslatable := obj_set (nonTranslatable acc) field v\<rparr>"
      have "set (map fst rest) \<inter> set (map fst (nonTranslatable ?acc)) = {}"
        using rn fr fn by (auto simp: obj_set_fresh)
      moreover have "set (map fst rest) \<inter> set (map fst (translatable ?acc)) = {}"
        using rt by simp
      ultimately show ?thesis
        using Cons.IH [of ?acc, OF d] nm True fn
        by (simp add: e goesTranslatable_def goesNonTranslatable_def obj_set_fresh)
    next
      case ne: False
      let ?acc' = "acc\<lparr>detectedTypes := obj_set (detectedTypes acc) field (detectFieldType v)\<rparr>"
      show ?thesis
      proof (cases "isTranslatableType (detectFieldType v)")
        case True
        let ?acc = "?acc'\<lparr>translatable := obj_set (translatable ?acc') field v\<rparr>"
        have "set (map fst rest) \<inter> set (map fst (translatable ?acc)) = {}"
          using rt fr ft by (auto simp: obj_set_fresh)
        moreover have "set (map fst rest) \<inter> set (map fst (nonTranslatable ?acc)) = {}"
          using rn by simp
        ultimately show ?thesis
          using Cons.IH [of ?acc, OF d] nm ne True ft
          by (simp add: e goesTranslatable_def goesNonTranslatable_def obj_set_fresh Let_def)
      next
        case False
        let ?acc = "?acc'\<lparr>nonTranslatable := obj_set (nonTranslatable ?acc') field v\<rparr>"
        have "set (map fst rest) \<inter> set (map fst (nonTranslatable ?acc)) = {}"
          using rn fr fn by (auto simp: obj_set_fresh)
        moreover have "set (map fst rest) \<inter> set (map fst (translatable ?acc)) = {}"
          using rt by simp
        ultimately show ?thesis
          using Cons.IH [of ?acc, OF d] nm ne False fn
          by (simp add: e goesTranslatable_def goesNonTranslatable_def obj_set_fresh Let_def)
      qed
    qed
  qed
qed

lemma separateContent_filter:
  assumes "distinct (map fst doc)"
  shows "translatable (separateContent doc flds) = filter (goesTranslatable flds) doc"
    and "nonTranslatable (separateContent doc flds) = filter (goesNonTranslatable flds) doc"
  using separateLoop_filter [OF assms, of "\<lparr>translatable = [], nonTranslatable = [], detectedTypes = []\<rparr>" flds]
  by (simp_all add: separateContent_def)

text \<open>
  C5. For every source document (an object, so its keys are pairwise distinct),
  \<open>separateContent\<close> partitions the fields: the reserved field \<open>_melaka\<close> is in neither
  output map; every other field of the document is, with its value, in exactly one of
  \<open>translatable\<close> and \<open>nonTranslatable\<close>; the outputs hold nothing that is not in the
  document, and no output holds a field twice.
\<close>

theorem separateContent_partition:
  assumes "distinct (map fst doc)"
  shows "''_melaka'' \<notin> set (obj_keys (translatable (separateContent doc flds)))
       \<and> ''_melaka'' \<notin> set (obj_keys (nonTranslatable (separateContent doc flds)))
       \<and> (\<forall>(f, v) \<in> set doc. f \<noteq> ''_melaka'' \<longrightarrow>
             ((f, v) \<in> set (translatable (separateContent doc flds))
                \<and> f \<notin> set (obj_keys (nonTranslatable (separateContent doc flds))))
           \<or> ((f, v) \<in> set (nonTranslatable (separateContent doc flds))
                \<and> f \<notin> set (obj_keys (translatable (separateContent doc flds)))))
       \<and> set (translatable (separateContent doc flds)) \<subseteq> set doc
       \<and> set (nonTranslatable (separateContent doc flds)) \<subseteq> set doc
       \<and> distinct (obj_keys (translatable (separateContent doc flds)))
       \<and> distinct (obj_keys (nonTranslatable (separateContent doc flds)))"
proof -
  note T = separateContent_filter(1) [OF assms, of flds]
  note N = separateContent_filter(2) [OF assms, of flds]
  have uniq: "\<And>f v w. (f, v) \<in> set doc \<Longrightarrow> (f, w) \<in> set doc \<Longrightarrow> v = w"
    using assms by (meson eq_key_imp_eq_value)
  have a: "''_melaka'' \<notin> set (obj_keys (filter (goesTranslatable flds) doc))"
    by (auto simp: obj_keys_def goesTranslatable_def)
  have b: "''_melaka'' \<notin> set (obj_keys (filter (goesNonTranslatable flds) doc))"
    by (auto simp: obj_keys_def goesNonTranslatable_def)
  have key: "\<And>P f v. (f, v) \<in> set doc \<Longrightarrow> f \<in> set (obj_keys (filter P doc)) \<Longrightarrow> P (f, v)"
  proof -
    fix P f v
    assume fv: "(f, v) \<in> set doc" and "f \<in> set (obj_keys (filter P doc))"
    then obtain w where w: "(f, w) \<in> set doc" "P (f, w)"
      by (auto simp: obj_keys_def)
    with uniq [OF fv w(1)] show "P (f, v)" by simp
  qed
  have c: "\<forall>(f, v) \<in> set doc. f \<noteq> ''_melaka'' \<longrightarrow>
             ((f, v) \<in> set (filter (goesTranslatable flds) doc)
                \<and> f \<notin> set (obj_keys (filter (goesNonTranslatable flds) doc)))
           \<or> ((f, v) \<in> set (filter (goesNonTranslatable flds) doc)
                \<and> f \<notin> set (obj_keys (filter (goesTranslatable flds) doc)))"
  proof (clarify, goal_cases)
    case (1 f v)
    show ?case
    proof (cases "goesTranslatable flds (f, v)")
      case True
      then have "\<not> goesNonTranslatable flds (f, v)"
        by (auto simp: goesTranslatable_def goesNonTranslatable_def)
      with key [OF 1(1), of "goesNonTranslatable flds"]
      have "f \<notin> set (obj_keys (filter (goesNonTranslatable flds) doc))" by blast
      with 1 True show ?thesis by simp
    next
      case False
      with 1 have n: "goesNonTranslatable flds (f, v)"
        by (auto simp: goesTranslatable_def goesNonTranslatable_def)
      from False key [OF 1(1), of "goesTranslatable flds"]
      have "f \<notin> set (obj_keys (filter (goesTranslatable flds) doc))" by blast
      with 1 n show ?thesis by simp
    qed
  qed
  have d: "distinct (obj_keys (filter (goesTranslatable flds) doc))"
    "distinct (obj_keys (filter (goesNonTranslatable flds) doc))"
    using assms by (simp_all add: obj_keys_def distinct_map_filter)
  show ?thesis
    unfolding T N using a b c d by auto
qed

theorem separateContent_partition_witness:
  "distinct (map fst [(''title'', JStr ''Hello''), (''views'', JNum 10),
       (''tags'', JArr [JStr ''a'', JStr ''b'']), (''_melaka'', JObj [])])
   \<and> translatable (separateContent [(''title'', JStr ''Hello''), (''views'', JNum 10),
       (''tags'', JArr [JStr ''a'', JStr ''b'']), (''_melaka'', JObj [])] None)
     = [(''title'', JStr ''Hello''), (''tags'', JArr [JStr ''a'', JStr ''b''])]
   \<and> nonTranslatable (separateContent [(''title'', JStr ''Hello''), (''views'', JNum 10),
       (''tags'', JArr [JStr ''a'', JStr ''b'']), (''_melaka'', JObj [])] None)
     = [(''views'', JNum 10)]
   \<and> ''_melaka'' \<notin> set (obj_keys (translatable (separateContent
       [(''title'', JStr ''Hello''), (''views'', JNum 10),
        (''tags'', JArr [JStr ''a'', JStr ''b'']), (''_melaka'', JObj [])] None)))"
proof -
  have h: "distinct (map fst [(''title'', JStr ''Hello''), (''views'', JNum 10),
       (''tags'', JArr [JStr ''a'', JStr ''b'']), (''_melaka'', JObj [])])"
    by simp
  have e: "translatable (separateContent [(''title'', JStr ''Hello''), (''views'', JNum 10),
       (''tags'', JArr [JStr ''a'', JStr ''b'']), (''_melaka'', JObj [])] None)
     = [(''title'', JStr ''Hello''), (''tags'', JArr [JStr ''a'', JStr ''b''])]
   \<and> nonTranslatable (separateContent [(''title'', JStr ''Hello''), (''views'', JNum 10),
       (''tags'', JArr [JStr ''a'', JStr ''b'']), (''_melaka'', JObj [])] None)
     = [(''views'', JNum 10)]"
    by (simp add: separateContent_def fieldExcluded_def detectFieldType_def
        detectArrayType_def isDocumentReference_def isTimestamp_def isGeoPoint_def
        isTranslatableType_def Let_def)
  from separateContent_partition [OF h, of None] h e show ?thesis by blast
qed

section \<open>Properties of the fingerprint\<close>

lemma JSON_stringify_object: "JSON_stringify (JObj ps) K \<noteq> None"
  by (simp add: JSON_stringify_def)

lemma sort_keys_eq:
  assumes "distinct (xs :: string list)" "distinct ys" "set xs = set ys"
  shows "sort xs = sort ys"
  by (rule sorted_distinct_set_unique) (simp_all add: assms)

lemma map_of_ser:
  "map_of (map (\<lambda>(k, v). (k, f v)) ps) = map_option f \<circ> map_of ps"
  by (induction ps) auto

lemma json_members_cong:
  "map_of sps = map_of sps' \<Longrightarrow> json_members K sps = json_members K sps'"
  by (simp add: json_members_def)

lemma normalizedContent_map_of:
  assumes "distinct (map fst M1)" "distinct (map fst M2)" "map_of M1 = map_of M2"
  shows "normalizedContent M1 = normalizedContent M2"
proof -
  have "fst ` set M1 = dom (map_of M1)" "fst ` set M2 = dom (map_of M2)"
    by (simp_all add: dom_map_of_conv_image_fst)
  with assms(3) have "set (map fst M1) = set (map fst M2)"
    by simp
  with assms(1,2) have K: "sort (obj_keys M1) = sort (obj_keys M2)"
    unfolding obj_keys_def by (rule sort_keys_eq)
  have "map_of (map (\<lambda>(k, v). (k, json_ser K v)) M1) = map_of (map (\<lambda>(k, v). (k, json_ser K v)) M2)" for K
    by (simp only: map_of_ser assms(3))
  then have "json_members K (map (\<lambda>(k, v). (k, json_ser K v)) M1)
           = json_members K (map (\<lambda>(k, v). (k, json_ser K v)) M2)" for K
    by (rule json_members_cong)
  then show ?thesis
    unfolding normalizedContent_def JSON_stringify_def K by simp
qed

text \<open>
  C9. \<open>hashContent\<close> does not depend on the insertion order of the keys: two objects with
  the same key-value content (equal as maps) have the same fingerprint, because the keys
  are sorted before the content is serialized and hashed.
\<close>

theorem hashContent_key_order:
  assumes "distinct (map fst M1)" "distinct (map fst M2)" "map_of M1 = map_of M2"
  shows "hashContent M1 = hashContent M2"
  by (simp add: hashContent_def normalizedContent_map_of [OF assms])

theorem hashContent_key_order_witness:
  "hashContent [(''a'', JNum 1), (''b'', JNum 2)] = hashContent [(''b'', JNum 2), (''a'', JNum 1)]"
proof -
  have "map_of [(''a'', JNum 1), (''b'', JNum 2)] = map_of [(''b'', JNum 2), (''a'', JNum 1)]"
    by (rule ext) simp
  then show ?thesis
    using hashContent_key_order [of "[(''a'', JNum 1), (''b'', JNum 2)]" "[(''b'', JNum 2), (''a'', JNum 1)]"]
    by simp
qed

section \<open>Fingerprints of different contents\<close>

lemma collision_normalized:
  "normalizedContent [(''tags'', JArr [JStr ''a'', JObj [(''x'', JNum 1)]])]
   = normalizedContent [(''tags'', JArr [JStr ''a'', JObj [(''x'', JNum 2)]])]"
  by (simp add: normalizedContent_def JSON_stringify_def json_members_def obj_keys_def List.map_filter_simps)

text \<open>
  C4. Contents that differ are meant to have different fingerprints, so that a change of
  the content is detected. \<open>hashContent\<close> does not achieve this: the array replacer of
  \<open>JSON.stringify\<close> is a whitelist of property names for every object of the value, not
  only for the top one, so a property of an object nested in the content is serialized
  only when its name is also a key of the content itself. The two contents below are each
  the translatable content of a document (an array whose first element is a string is
  classified \<open>string[]\<close>); they differ, and they have one serialization and one
  fingerprint.
\<close>

theorem hashContent_collision:
  "[(''tags'', JArr [JStr ''a'', JObj [(''x'', JNum 1)]])] \<noteq> [(''tags'', JArr [JStr ''a'', JObj [(''x'', JNum 2)]])]
   \<and> translatable (separateContent [(''tags'', JArr [JStr ''a'', JObj [(''x'', JNum 1)]])] None)
       = [(''tags'', JArr [JStr ''a'', JObj [(''x'', JNum 1)]])]
   \<and> translatable (separateContent [(''tags'', JArr [JStr ''a'', JObj [(''x'', JNum 2)]])] None)
       = [(''tags'', JArr [JStr ''a'', JObj [(''x'', JNum 2)]])]
   \<and> hashContent [(''tags'', JArr [JStr ''a'', JObj [(''x'', JNum 1)]])]
     = hashContent [(''tags'', JArr [JStr ''a'', JObj [(''x'', JNum 2)]])]"
  by (simp add: hashContent_def collision_normalized separateContent_def fieldExcluded_def detectFieldType_def
        detectArrayType_def isDocumentReference_def isTranslatableType_def Let_def)

text \<open>
  The consequence in the pipeline: a document whose nested value has changed from
  \<open>x: 1\<close> to \<open>x: 2\<close> since its translation was stored is taken as current. The
  run is skipped, nothing is written, and the stored translation stays that of the old
  content.
\<close>

lemma changed_document_not_detected:
  "processTranslation examplePlatform ''products/abc''
     [(''tags'', JArr [JStr ''a'', JObj [(''x'', JNum 2)]])] ''ms-MY''
     (exampleConfig ''gemini'') exampleCollection noOptions
     \<lparr>docs = (\<lambda>p. if p = ''products/abc/i18n/ms-MY''
                   then Some [(''tags'', JArr [JStr ''b'', JObj [(''x'', JNum 1)]]),
                              (''_melaka'', completedMetadata
                                 (hashContent [(''tags'', JArr [JStr ''a'', JObj [(''x'', JNum 1)]])])
                                 exampleTimestamp ''model-1'')]
                   else None),
      outcomes = [], writes = []\<rparr>
   = (Inr \<lparr>pr_success = True, pr_skipped = True, pr_error = None, pr_durationMs = Some 7\<rparr>,
      \<lparr>docs = (\<lambda>p. if p = ''products/abc/i18n/ms-MY''
                   then Some [(''tags'', JArr [JStr ''b'', JObj [(''x'', JNum 1)]]),
                              (''_melaka'', completedMetadata
                                 (hashContent [(''tags'', JArr [JStr ''a'', JObj [(''x'', JNum 1)]])])
                                 exampleTimestamp ''model-1'')]
                   else None),
      outcomes = [], writes = []\<rparr>)"
proof -
  have sep: "separateContent [(''tags'', JArr [JStr ''a'', JObj [(''x'', JNum 2)]])]
      (c_fields exampleCollection)
    = \<lparr>translatable = [(''tags'', JArr [JStr ''a'', JObj [(''x'', JNum 2)]])],
       nonTranslatable = [], detectedTypes = [(''tags'', T_string_array)]\<rparr>"
    by (simp add: separateContent_def exampleCollection_def fieldExcluded_def
        detectFieldType_def detectArrayType_def isDocumentReference_def isTranslatableType_def
        Let_def)
  have h: "hashContent [(''tags'', JArr [JStr ''a'', JObj [(''x'', JNum 2)]])]
      = hashContent [(''tags'', JArr [JStr ''a'', JObj [(''x'', JNum 1)]])]"
    by (simp add: hashContent_def collision_normalized)
  show ?thesis
    by (simp add: processTranslation_def processTranslation_try_def io_catch_def io_bind_def
        io_return_def sep obj_keys_def h alreadyCurrent_def noOptions_def optionIsTrue_def
        readMelakaMetadata_def readTranslation_def ref_get_def nextOutcome_def
        getI18nRef_def getI18nPath_def completedMetadata_def obj_get_def metadataIsCurrent_def
        skippedResult_def examplePlatform_def Let_def)
qed

text \<open>
  The serialization with sorted keys determines flat content: the escaping of a string
  is a prefix code, so a quoted string, a list of quoted strings and a list of members can
  each be read back in one way only.
\<close>

lemma hexdigit_inj:
  assumes "a < 16" "b < 16" "hexdigit a = hexdigit b"
  shows "a = b"
proof -
  have d: "distinct ''0123456789abcdef''" by simp
  have l: "length ''0123456789abcdef'' = 16" by simp
  from assms have "''0123456789abcdef'' ! a = ''0123456789abcdef'' ! b"
    by (simp add: hexdigit_def)
  with nth_eq_iff_index_eq [OF d, of a b] assms(1,2) l show ?thesis by simp
qed

lemma hex_pair_inj:
  assumes "n < 32" "m < 32" "hexdigit (n div 16) = hexdigit (m div 16)"
    "hexdigit (n mod 16) = hexdigit (m mod 16)"
  shows "n = (m :: nat)"
proof -
  have "n div 16 = m div 16"
    using assms(1,2) by (intro hexdigit_inj [OF _ _ assms(3)]) simp_all
  moreover have "n mod 16 = m mod 16"
    by (rule hexdigit_inj [OF _ _ assms(4)]) simp_all
  ultimately show ?thesis
    by (metis div_mult_mod_eq)
qed

lemma json_escape_prefix_code:
  "json_escape c @ X = json_escape c' @ X' \<Longrightarrow> c = c' \<and> X = X'"
  by (auto simp: json_escape_def split: if_splits dest: hex_pair_inj)

lemma json_escape_head:
  "json_escape c \<noteq> [] \<and> hd (json_escape c) \<noteq> CHR 0x22"
  by (simp add: json_escape_def)

lemma escaped_unique:
  "concat (map json_escape s) @ CHR 0x22 # r = concat (map json_escape s') @ CHR 0x22 # r'
   \<Longrightarrow> s = s' \<and> r = r'"
proof (induction s arbitrary: s')
  case Nil
  show ?case
  proof (cases s')
    case Nil
    with Nil.prems show ?thesis by simp
  next
    case (Cons c t)
    with Nil.prems json_escape_head [of c] show ?thesis
      by (cases "json_escape c") auto
  qed
next
  case (Cons c t)
  show ?case
  proof (cases s')
    case Nil
    with Cons.prems json_escape_head [of c] show ?thesis
      by (cases "json_escape c") auto
  next
    case (Cons c' t')
    with Cons.prems
    have "json_escape c @ (concat (map json_escape t) @ CHR 0x22 # r)
        = json_escape c' @ (concat (map json_escape t') @ CHR 0x22 # r')"
      by simp
    from json_escape_prefix_code [OF this] Cons.IH [of t'] Cons show ?thesis
      by simp
  qed
qed

lemma json_quote_unique:
  "json_quote s @ r = json_quote s' @ r' \<Longrightarrow> s = s' \<and> r = r'"
  using escaped_unique [of s r s' r'] by (simp add: json_quote_def)

lemma join_comma_unique:
  assumes pf: "\<And>a b u v. P a \<Longrightarrow> P b \<Longrightarrow> a @ u = b @ v \<Longrightarrow> a = b \<and> u = v"
    and hd: "\<And>a. P a \<Longrightarrow> a \<noteq> [] \<and> hd a \<noteq> T"
    and T: "T \<noteq> CHR '',''"
    and as: "\<forall>a \<in> set as. P a" and bs: "\<forall>b \<in> set bs. P b"
    and eq: "join_comma as @ T # r = join_comma bs @ T # r'"
  shows "as = bs \<and> r = r'"
  using as bs eq
proof (induction as arbitrary: bs rule: join_comma.induct)
  case 1
  show ?case
  proof (cases bs rule: join_comma.cases)
    case 1
    with "1.prems" show ?thesis by simp
  next
    case (2 b)
    with "1.prems" hd [of b] show ?thesis by (cases b) auto
  next
    case (3 b b' bs')
    with "1.prems" hd [of b] show ?thesis by (cases b) auto
  qed
next
  case (2 a)
  then have Pa: "P a" by simp
  show ?case
  proof (cases bs rule: join_comma.cases)
    case 1
    with "2.prems" hd [OF Pa] show ?thesis by (cases a) auto
  next
    case (2 b)
    with "2.prems" pf [of a b "T # r" "T # r'"] show ?thesis by simp
  next
    case (3 b b' bs')
    with "2.prems" pf [of a b "T # r" "CHR '','' # join_comma (b' # bs') @ T # r'"] T
    show ?thesis by simp
  qed
next
  case (3 a a' as')
  then have Pa: "P a" by simp
  show ?case
  proof (cases bs rule: join_comma.cases)
    case 1
    with "3.prems" hd [OF Pa] show ?thesis by (cases a) auto
  next
    case (2 b)
    with "3.prems" pf [of a b "CHR '','' # join_comma (a' # as') @ T # r" "T # r'"] T
    show ?thesis by simp
  next
    case b: (3 b b' bs')
    with "3.prems" pf [of a b "CHR '','' # join_comma (a' # as') @ T # r"
        "CHR '','' # join_comma (b' # bs') @ T # r'"]
    have ab: "a = b" and rest: "join_comma (a' # as') @ T # r = join_comma (b' # bs') @ T # r'"
      by simp_all
    from "3.IH" [of "b' # bs'"] "3.prems" b rest have "a' # as' = b' # bs' \<and> r = r'"
      by simp
    with ab b show ?thesis by simp
  qed
qed

lemma all_strings: "list_all isStringValue xs \<Longrightarrow> \<exists>ss. xs = map JStr ss"
proof (induction xs)
  case Nil
  then show ?case by simp
next
  case (Cons x xs)
  then obtain ss where "xs = map JStr ss" by auto
  moreover from Cons.prems obtain s where "x = JStr s" by (cases x) auto
  ultimately have "x # xs = map JStr (s # ss)" by simp
  then show ?case by (rule exI)
qed

lemma flat_ser:
  assumes "isFlatValue v"
  shows "(\<exists>s. v = JStr s \<and> json_ser K v = Some (json_quote s))
       \<or> (\<exists>ss. v = JArr (map JStr ss)
             \<and> json_ser K v = Some (CHR ''['' # join_comma (map json_quote ss) @ '']''))"
proof (cases v)
  case (JArr xs)
  with assms obtain ss where "xs = map JStr ss" using all_strings by auto
  with JArr show ?thesis by (auto simp: comp_def)
qed (use assms in auto)

lemma json_quote_inj: "json_quote s = json_quote s' \<Longrightarrow> s = s'"
  using json_quote_unique [of s "[]" s' "[]"] by simp

lemma quoted_list_unique:
  assumes "join_comma (map json_quote ss) @ CHR '']'' # r
         = join_comma (map json_quote ss') @ CHR '']'' # r'"
  shows "ss = ss' \<and> r = r'"
proof -
  have "map json_quote ss = map json_quote ss' \<and> r = r'"
  proof (rule join_comma_unique [where P = "\<lambda>a. \<exists>s. a = json_quote s" and T = "CHR '']''"])
    show "a = b \<and> u = v" if "\<exists>s. a = json_quote s" "\<exists>s. b = json_quote s" "a @ u = b @ v"
      for a b u v
      using that json_quote_unique by blast
    show "a \<noteq> [] \<and> hd a \<noteq> CHR '']''" if "\<exists>s. a = json_quote s" for a
      using that by (auto simp: json_quote_def)
    show "CHR '']'' \<noteq> CHR '',''" by simp
    show "\<forall>a \<in> set (map json_quote ss). \<exists>s. a = json_quote s" by auto
    show "\<forall>b \<in> set (map json_quote ss'). \<exists>s. b = json_quote s" by auto
    show "join_comma (map json_quote ss) @ CHR '']'' # r
         = join_comma (map json_quote ss') @ CHR '']'' # r'" by (rule assms)
  qed
  moreover have "inj json_quote"
    by (rule injI) (rule json_quote_inj)
  ultimately show ?thesis
    by (simp add: inj_map_eq_map)
qed

lemma flat_text_unique:
  assumes "isFlatValue v" "isFlatValue v'" "json_ser K v = Some t" "json_ser K' v' = Some t'"
    "t @ u = t' @ u'"
  shows "v = v' \<and> u = u'"
proof -
  from flat_ser [OF assms(1), of K] assms(3)
  consider (s) s where "v = JStr s" "t = json_quote s"
    | (a) ss where "v = JArr (map JStr ss)" "t = CHR ''['' # join_comma (map json_quote ss) @ '']''"
    by auto
  then show ?thesis
  proof cases
    case s
    from flat_ser [OF assms(2), of K'] assms(4)
    consider (s') s' where "v' = JStr s'" "t' = json_quote s'"
      | (a') ss' where "v' = JArr (map JStr ss')"
          "t' = CHR ''['' # join_comma (map json_quote ss') @ '']''"
      by auto
    then show ?thesis
    proof cases
      case s'
      with s assms(5) json_quote_unique [of s u s' u'] show ?thesis by simp
    next
      case a'
      with s assms(5) show ?thesis by (simp add: json_quote_def)
    qed
  next
    case a
    from flat_ser [OF assms(2), of K'] assms(4)
    consider (s') s' where "v' = JStr s'" "t' = json_quote s'"
      | (a') ss' where "v' = JArr (map JStr ss')"
          "t' = CHR ''['' # join_comma (map json_quote ss') @ '']''"
      by auto
    then show ?thesis
    proof cases
      case s'
      with a assms(5) show ?thesis by (simp add: json_quote_def)
    next
      case a'
      with a assms(5) quoted_list_unique [of ss u ss' u'] show ?thesis by simp
    qed
  qed
qed

lemma flat_ser_indep:
  assumes "isFlatValue v"
  shows "json_ser K v = json_ser K' v"
proof (cases v)
  case (JArr xs)
  with assms obtain ss where "xs = map JStr ss" using all_strings by auto
  with JArr show ?thesis by (simp add: comp_def)
qed (use assms in auto)

lemma flat_members:
  assumes flat: "flatContent M" and sub: "set K \<subseteq> set (obj_keys M)"
  shows "list_all2
           (\<lambda>k a. \<exists>v t. map_of M k = Some v \<and> isFlatValue v \<and> json_ser [] v = Some t
                    \<and> a = json_quote k @ CHR '':'' # t)
           K (json_members K (map (\<lambda>(k, v). (k, json_ser K0 v)) M))"
  using sub
proof (induction K)
  case Nil
  then show ?case by (simp add: json_members_def List.map_filter_simps)
next
  case (Cons k K)
  from Cons.prems have "k \<in> fst ` set M" by (simp add: obj_keys_def)
  then obtain v where v: "map_of M k = Some v"
    by (metis domD dom_map_of_conv_image_fst)
  then have "(k, v) \<in> set M" by (rule map_of_SomeD)
  with flat have fv: "isFlatValue v"
    by (auto simp: flatContent_def list_all_iff)
  from flat_ser [OF fv, of K0] obtain t where t: "json_ser K0 v = Some t" by auto
  with flat_ser_indep [OF fv, of "[]" K0] have t0: "json_ser [] v = Some t" by simp
  have look: "map_of (map (\<lambda>(k, v). (k, json_ser K0 v)) M) k = Some (Some t)"
    by (simp add: map_of_ser v t)
  have step: "json_members (k # K) (map (\<lambda>(k, v). (k, json_ser K0 v)) M)
      = (json_quote k @ CHR '':'' # t) # json_members K (map (\<lambda>(k, v). (k, json_ser K0 v)) M)"
    by (simp add: json_members_def List.map_filter_simps look)
  from Cons.IH Cons.prems
  have "list_all2
           (\<lambda>k a. \<exists>v t. map_of M k = Some v \<and> isFlatValue v \<and> json_ser [] v = Some t
                    \<and> a = json_quote k @ CHR '':'' # t)
           K (json_members K (map (\<lambda>(k, v). (k, json_ser K0 v)) M))"
    by simp
  with v fv t0 show ?case
    unfolding step by simp
qed

lemma member_unique:
  assumes "isFlatValue v" "json_ser [] v = Some t" "isFlatValue v'" "json_ser [] v' = Some t'"
    "(json_quote k @ CHR '':'' # t) @ u = (json_quote k' @ CHR '':'' # t') @ u'"
  shows "k = k' \<and> v = v' \<and> u = u'"
proof -
  from assms(5) have "json_quote k @ (CHR '':'' # t @ u) = json_quote k' @ (CHR '':'' # t' @ u')"
    by simp
  from json_quote_unique [OF this] have k: "k = k'" and "t @ u = t' @ u'" by simp_all
  from flat_text_unique [OF assms(1) assms(3) assms(2) assms(4) this(2)] k show ?thesis by simp
qed

lemma list_all2_common:
  assumes "list_all2 R1 xs zs" "list_all2 R2 ys zs"
    and "\<And>x y z. R1 x z \<Longrightarrow> R2 y z \<Longrightarrow> Q x y"
  shows "list_all2 Q xs ys"
  using assms(1,2)
proof (induction xs zs arbitrary: ys rule: list_all2_induct)
  case Nil
  then show ?case by simp
next
  case (Cons x xs z zs)
  then obtain y ys' where "ys = y # ys'" "R2 y z" "list_all2 R2 ys' zs"
    by (cases ys) auto
  with Cons assms(3) show ?case by auto
qed

lemma normalizedContent_flat_inj:
  assumes f1: "flatContent M1" and f2: "flatContent M2"
    and eq: "normalizedContent M1 = normalizedContent M2"
  shows "map_of M1 = map_of M2"
proof -
  let ?K1 = "sort (obj_keys M1)" and ?K2 = "sort (obj_keys M2)"
  let ?R = "\<lambda>M k a. \<exists>v t. map_of M k = Some v \<and> isFlatValue v \<and> json_ser [] v = Some t
                    \<and> a = json_quote k @ CHR '':'' # t"
  let ?ms1 = "json_members ?K1 (map (\<lambda>(k, v). (k, json_ser ?K1 v)) M1)"
  let ?ms2 = "json_members ?K2 (map (\<lambda>(k, v). (k, json_ser ?K2 v)) M2)"
  have r1: "list_all2 (?R M1) ?K1 ?ms1"
    by (rule flat_members [OF f1]) simp
  have r2: "list_all2 (?R M2) ?K2 ?ms2"
    by (rule flat_members [OF f2]) simp
  have P1: "\<forall>a \<in> set ?ms1. \<exists>k v t. isFlatValue v \<and> json_ser [] v = Some t
        \<and> a = json_quote k @ CHR '':'' # t"
    using r1 by (auto simp: list_all2_conv_all_nth in_set_conv_nth) blast
  have P2: "\<forall>a \<in> set ?ms2. \<exists>k v t. isFlatValue v \<and> json_ser [] v = Some t
        \<and> a = json_quote k @ CHR '':'' # t"
    using r2 by (auto simp: list_all2_conv_all_nth in_set_conv_nth) blast
  from eq have "join_comma ?ms1 @ CHR ''}'' # [] = join_comma ?ms2 @ CHR ''}'' # []"
    by (simp add: normalizedContent_def JSON_stringify_def)
  then have "?ms1 = ?ms2 \<and> ([] :: string) = []"
  proof (rule join_comma_unique [where
        P = "\<lambda>a. \<exists>k v t. isFlatValue v \<and> json_ser [] v = Some t \<and> a = json_quote k @ CHR '':'' # t"
        and T = "CHR ''}''", rotated -1])
    show "a = b \<and> u = w"
      if "\<exists>k v t. isFlatValue v \<and> json_ser [] v = Some t \<and> a = json_quote k @ CHR '':'' # t"
        "\<exists>k v t. isFlatValue v \<and> json_ser [] v = Some t \<and> b = json_quote k @ CHR '':'' # t"
        "a @ u = b @ w" for a b u w
    proof -
      from that(1) obtain k v t where a: "isFlatValue v" "json_ser [] v = Some t"
        "a = json_quote k @ CHR '':'' # t" by blast
      from that(2) obtain k' v' t' where b: "isFlatValue v'" "json_ser [] v' = Some t'"
        "b = json_quote k' @ CHR '':'' # t'" by blast
      from member_unique [OF a(1,2) b(1,2), of k u k' w] that(3) a(3) b(3)
      have "k = k'" "v = v'" "u = w" by simp_all
      with a b show ?thesis by simp
    qed
    show "a \<noteq> [] \<and> hd a \<noteq> CHR ''}''"
      if "\<exists>k v t. isFlatValue v \<and> json_ser [] v = Some t \<and> a = json_quote k @ CHR '':'' # t" for a
      using that by (auto simp: json_quote_def)
    show "CHR ''}'' \<noteq> CHR '',''" by simp
    show "\<forall>a \<in> set ?ms1. \<exists>k v t. isFlatValue v \<and> json_ser [] v = Some t
        \<and> a = json_quote k @ CHR '':'' # t" by (rule P1)
    show "\<forall>a \<in> set ?ms2. \<exists>k v t. isFlatValue v \<and> json_ser [] v = Some t
        \<and> a = json_quote k @ CHR '':'' # t" by (rule P2)
  qed
  then have ms: "?ms1 = ?ms2" by simp
  have "list_all2 (\<lambda>k1 k2. k1 = k2 \<and> map_of M1 k1 = map_of M2 k2) ?K1 ?K2"
  proof (rule list_all2_common [OF r1 r2 [folded ms]])
    fix x y z
    assume "?R M1 x z" "?R M2 y z"
    then obtain v t v' t' where
      a: "map_of M1 x = Some v" "isFlatValue v" "json_ser [] v = Some t"
         "z = json_quote x @ CHR '':'' # t"
      and b: "map_of M2 y = Some v'" "isFlatValue v'" "json_ser [] v' = Some t'"
         "z = json_quote y @ CHR '':'' # t'"
      by blast
    from member_unique [OF a(2,3) b(2,3), of x "[]" y "[]"] a(4) b(4)
    have "x = y" "v = v'" by simp_all
    with a b show "x = y \<and> map_of M1 x = map_of M2 y" by simp
  qed
  then have L: "list_all2 (\<lambda>k1 k2. k1 = k2 \<and> map_of M1 k1 = map_of M2 k2) ?K1 ?K2" .
  from L have "list_all2 (=) ?K1 ?K2"
    by (rule list_all2_mono) simp
  then have K: "?K1 = ?K2"
    by (simp add: list_all2_eq)
  have vals: "map_of M1 k = map_of M2 k" if "k \<in> set (obj_keys M1)" for k
  proof -
    from that have "k \<in> set ?K1" by simp
    then obtain i where i: "i < length ?K1" "?K1 ! i = k"
      by (metis in_set_conv_nth)
    from list_all2_nthD [OF L i(1)]
    have "?K1 ! i = ?K2 ! i" "map_of M1 (?K1 ! i) = map_of M2 (?K2 ! i)" by blast+
    then have "map_of M1 (?K1 ! i) = map_of M2 (?K1 ! i)" by metis
    then show ?thesis unfolding i(2) .
  qed
  have keys: "set (obj_keys M1) = set (obj_keys M2)"
    using K by (metis set_sort)
  show ?thesis
  proof
    fix k
    show "map_of M1 k = map_of M2 k"
    proof (cases "k \<in> set (obj_keys M1)")
      case True
      then show ?thesis by (rule vals)
    next
      case False
      with keys have "k \<notin> fst ` set M1" "k \<notin> fst ` set M2"
        by (simp_all add: obj_keys_def)
      then have "map_of M1 k = None" "map_of M2 k = None"
        by (simp_all add: map_of_eq_None_iff)
      then show ?thesis by simp
    qed
  qed
qed

text \<open>
  Apart from nested objects the fingerprint does separate contents: for content maps whose
  values are strings or arrays of strings, equal fingerprints imply equal content, up to
  a collision of SHA-256 itself.
\<close>

theorem hashContent_flat_content:
  assumes "flatContent M1" "flatContent M2" "hashContent M1 = hashContent M2"
  shows "map_of M1 = map_of M2
       \<or> (\<exists>t1 t2. normalizedContent M1 = Some t1 \<and> normalizedContent M2 = Some t2
             \<and> t1 \<noteq> t2 \<and> sha256 t1 = sha256 t2)"
proof -
  obtain t1 where t1: "normalizedContent M1 = Some t1"
    by (simp add: normalizedContent_def JSON_stringify_def)
  obtain t2 where t2: "normalizedContent M2 = Some t2"
    by (simp add: normalizedContent_def JSON_stringify_def)
  from assms(3) have h: "sha256 t1 = sha256 t2"
    by (simp add: hashContent_def t1 t2)
  show ?thesis
  proof (cases "t1 = t2")
    case True
    with t1 t2 have "normalizedContent M1 = normalizedContent M2" by simp
    from normalizedContent_flat_inj [OF assms(1,2) this] show ?thesis by simp
  next
    case False
    with t1 t2 h show ?thesis by simp
  qed
qed

theorem hashContent_flat_content_witness:
  "flatContent [(''title'', JStr ''Hello''), (''tags'', JArr [JStr ''a'', JStr ''b''])]
   \<and> flatContent [(''tags'', JArr [JStr ''a'', JStr ''b'']), (''title'', JStr ''Hello'')]
   \<and> hashContent [(''title'', JStr ''Hello''), (''tags'', JArr [JStr ''a'', JStr ''b''])]
     = hashContent [(''tags'', JArr [JStr ''a'', JStr ''b'']), (''title'', JStr ''Hello'')]
   \<and> (map_of [(''title'', JStr ''Hello''), (''tags'', JArr [JStr ''a'', JStr ''b''])]
        = map_of [(''tags'', JArr [JStr ''a'', JStr ''b'']), (''title'', JStr ''Hello'')]
      \<or> (\<exists>t1 t2.
            normalizedContent [(''title'', JStr ''Hello''), (''tags'', JArr [JStr ''a'', JStr ''b''])]
              = Some t1
          \<and> normalizedContent [(''tags'', JArr [JStr ''a'', JStr ''b'']), (''title'', JStr ''Hello'')]
              = Some t2
          \<and> t1 \<noteq> t2 \<and> sha256 t1 = sha256 t2))"
proof -
  let ?M1 = "[(''title'', JStr ''Hello''), (''tags'', JArr [JStr ''a'', JStr ''b''])]"
  let ?M2 = "[(''tags'', JArr [JStr ''a'', JStr ''b'']), (''title'', JStr ''Hello'')]"
  have f1: "flatContent ?M1" and f2: "flatContent ?M2"
    by (simp_all add: flatContent_def obj_keys_def)
  have m: "map_of ?M1 = map_of ?M2"
    by (rule ext) simp
  have "normalizedContent ?M1 = normalizedContent ?M2"
    by (rule normalizedContent_map_of [OF _ _ m]) simp_all
  then have h: "hashContent ?M1 = hashContent ?M2"
    by (simp add: hashContent_def)
  from hashContent_flat_content [OF f1 f2 h] f1 f2 h show ?thesis
    by blast
qed

section \<open>Properties of the record store\<close>

lemma falsy_prop: "\<not> truthy v \<Longrightarrow> js_prop v k = JUndefined"
  by (cases v) auto

lemma nextOutcome_docs [simp]: "docs (snd (nextOutcome w)) = docs w"
  and nextOutcome_writes [simp]: "writes (snd (nextOutcome w)) = writes w"
  by (auto simp: nextOutcome_def split: list.splits)

text \<open>
  C6. When the read of the store is served, \<open>isTranslationCurrent\<close> returns true if and
  only if a translation record exists for the document and the locale whose metadata has
  the status \<open>completed\<close> and the source hash \<open>H\<close>; it returns false when the record is
  absent, when its status is \<open>failed\<close> or \<open>pending\<close>, and when the stored hash differs. It
  writes nothing.
\<close>

theorem isTranslationCurrent_iff:
  assumes "fst (nextOutcome w) = None"
  shows "isTranslationCurrent docRef locale H w =
           (Inr (\<exists>data. docs w (getI18nRef docRef locale) = Some data
                  \<and> js_prop (obj_get data ''_melaka'') ''status'' = JStr ''completed''
                  \<and> js_prop (obj_get data ''_melaka'') ''source_hash'' = JStr H),
            snd (nextOutcome w))"
proof -
  obtain w' where n: "nextOutcome w = (None, w')"
    using assms by (cases "nextOutcome w") simp
  have d: "docs w' = docs w"
    using nextOutcome_docs [of w] n by simp
  show ?thesis
  proof (cases "docs w (getI18nRef docRef locale)")
    case None
    then show ?thesis
      by (simp add: isTranslationCurrent_def readMelakaMetadata_def readTranslation_def
          ref_get_def io_bind_def io_return_def n d)
  next
    case (Some data)
    show ?thesis
    proof (cases "truthy (obj_get data ''_melaka'')")
      case True
      with Some show ?thesis
        by (simp add: isTranslationCurrent_def readMelakaMetadata_def readTranslation_def
            ref_get_def io_bind_def io_return_def n d)
    next
      case False
      with Some falsy_prop [OF False] show ?thesis
        by (simp add: isTranslationCurrent_def readMelakaMetadata_def readTranslation_def
            ref_get_def io_bind_def io_return_def n d)
    qed
  qed
qed

theorem isTranslationCurrent_iff_witness:
  "fst (nextOutcome exampleWorld) = None
   \<and> isTranslationCurrent ''products/abc'' ''ms-MY'' ''h1'' exampleWorld = (Inr True, exampleWorld)
   \<and> isTranslationCurrent ''products/abc'' ''ms-MY'' ''h2'' exampleWorld = (Inr False, exampleWorld)
   \<and> isTranslationCurrent ''products/abc'' ''zh-CN'' ''h1'' exampleWorld = (Inr False, exampleWorld)"
proof -
  have n: "nextOutcome exampleWorld = (None, exampleWorld)"
    by (simp add: nextOutcome_def exampleWorld_def)
  then have h: "fst (nextOutcome exampleWorld) = None" by simp
  have p: "getI18nRef ''products/abc'' ''ms-MY'' = ''products/abc/i18n/ms-MY''"
    "getI18nRef ''products/abc'' ''zh-CN'' = ''products/abc/i18n/zh-CN''"
    by (simp_all add: getI18nRef_def getI18nPath_def)
  have d: "docs exampleWorld ''products/abc/i18n/ms-MY'' = Some exampleRecord"
    "docs exampleWorld ''products/abc/i18n/zh-CN'' = None"
    by (simp_all add: exampleWorld_def)
  have m: "map_of exampleRecord ''_melaka''
      = Some (JObj [(''source_hash'', JStr ''h1''), (''status'', JStr ''completed'')])"
    by (simp add: exampleRecord_def)
  show ?thesis
    using isTranslationCurrent_iff [OF h, of "''products/abc''" "''ms-MY''" "''h1''"]
      isTranslationCurrent_iff [OF h, of "''products/abc''" "''ms-MY''" "''h2''"]
      isTranslationCurrent_iff [OF h, of "''products/abc''" "''zh-CN''" "''h1''"]
    by (simp add: n p d m obj_get_def)
qed

section \<open>Properties of the pipeline\<close>

text \<open>
  C7. For a document whose separated translatable content is empty,
  \<open>processTranslation\<close> returns \<open>{success: true, skipped: true}\<close> and leaves the store as it
  was: no call of the store is made, so nothing is written.
\<close>

theorem processTranslation_skips_empty:
  assumes "obj_keys (translatable (separateContent docData (c_fields collectionConfig))) = []"
  shows "processTranslation P docRef docData targetLanguage config collectionConfig options w =
           (Inr \<lparr>pr_success = True, pr_skipped = True, pr_error = None,
                 pr_durationMs = Some (pipelineMs P)\<rparr>, w)"
  using assms
  by (simp add: processTranslation_def processTranslation_try_def io_catch_def io_return_def
      skippedResult_def)

theorem processTranslation_skips_empty_witness:
  "obj_keys (translatable (separateContent [(''views'', JNum 10), (''_melaka'', JObj [])]
      (c_fields exampleCollection))) = []
   \<and> processTranslation examplePlatform ''products/abc'' [(''views'', JNum 10), (''_melaka'', JObj [])]
       ''ms-MY'' (exampleConfig ''gemini'') exampleCollection noOptions exampleWorld
     = (Inr \<lparr>pr_success = True, pr_skipped = True, pr_error = None, pr_durationMs = Some 7\<rparr>,
        exampleWorld)"
proof -
  have h: "obj_keys (translatable (separateContent [(''views'', JNum 10), (''_melaka'', JObj [])]
      (c_fields exampleCollection))) = []"
    by (simp add: separateContent_def exampleCollection_def fieldExcluded_def detectFieldType_def
        isDocumentReference_def isTimestamp_def isGeoPoint_def isTranslatableType_def
        obj_keys_def Let_def)
  from processTranslation_skips_empty [OF h, of examplePlatform "''products/abc''" "''ms-MY''"
      "exampleConfig ''gemini''" noOptions exampleWorld] h
  show ?thesis by (simp add: examplePlatform_def)
qed

lemma processTranslation_catch_returns:
  "processTranslation_catch P docRef targetLanguage options e w1 =
     (Inr (failedResult P (Some e)),
      snd (markTranslationFailed docRef targetLanguage e (timestampOf P options) w1))"
  by (simp add: processTranslation_catch_def io_bind_def io_catch_def io_return_def Let_def
      split: prod.splits sum.splits)

lemma example_separate:
  "separateContent exampleDocument None =
     \<lparr>translatable = [(''title'', JStr ''Hello'')], nonTranslatable = [(''views'', JNum 10)],
      detectedTypes = [(''title'', T_string), (''views'', T_number)]\<rparr>"
  by (simp add: separateContent_def exampleDocument_def fieldExcluded_def detectFieldType_def
      isDocumentReference_def isTimestamp_def isGeoPoint_def isTranslatableType_def Let_def)

text \<open>
  What \<open>markTranslationFailed\<close> does to the store: when the store serves its two calls
  (the read and the write), it writes the failed mark, after which the record reads as
  failed with the error; when one of the two calls is rejected, it writes nothing.
\<close>

lemma map_of_obj_set: "map_of (obj_set ob k v) = (map_of ob)(k \<mapsto> v)"
  by (induction ob) auto

lemma markTranslationFailed_effect:
  "writes (snd (markTranslationFailed docRef locale err ts w))
     = (if storeServes 2 w then writes w @ [failedMarkOf w docRef locale err ts] else writes w)"
  "docs (snd (markTranslationFailed docRef locale err ts w))
     = (if storeServes 2 w
        then (docs w)(getI18nRef docRef locale \<mapsto> failedRecord w docRef locale err ts)
        else docs w)"
  by (auto simp: markTranslationFailed_def io_bind_def ref_get_def ref_set_def ref_update_def
      nextOutcome_def failedMarkOf_def failedRecord_def storeServes_def
      split: option.splits list.splits)

lemma obj_get_obj_set: "obj_get (obj_set ob k v) k' = (if k' = k then v else obj_get ob k')"
  by (simp add: obj_get_def map_of_obj_set)

lemma obj_get_Cons: "obj_get ((k, v) # ob) k' = (if k' = k then v else obj_get ob k')"
  and obj_get_Nil: "obj_get [] k' = JUndefined"
  by (simp_all add: obj_get_def)

lemma failedRecord_reads_failed:
  "js_prop (obj_get (failedRecord w docRef locale err ts) ''_melaka'') ''status'' = JStr ''failed''"
  "js_prop (obj_get (failedRecord w docRef locale err ts) ''_melaka'') ''error'' = JStr err"
  by (cases "docs w (getI18nRef docRef locale)";
      simp add: failedRecord_def failedDocument_def failedUpdates_def applyUpdates_def
        obj_get_obj_set obj_get_Cons obj_get_Nil)+

lemma example_schema:
  "createTranslationSchema [(''title'', JStr ''Hello'')] [(''title'', T_string), (''views'', T_number)]
     = ZObject [(''title'', ZString)]"
  by (simp add: createTranslationSchema_def obj_keys_def)

lemma example_not_current:
  "alreadyCurrent ''products/xyz'' ''ms-MY'' noOptions h exampleWorld = (Inr False, exampleWorld)"
  by (simp add: alreadyCurrent_def noOptions_def optionIsTrue_def readMelakaMetadata_def
      readTranslation_def ref_get_def nextOutcome_def io_bind_def io_return_def exampleWorld_def
      getI18nRef_def getI18nPath_def metadataIsCurrent_def)

lemma example_facade:
  "createTranslationFacade (getEffectiveAIConfig (exampleConfig ''gemini'') exampleCollection)
     = Inr \<lparr>pc_apiKey = Some ''key'', pc_model = ''model-1''\<rparr>"
  by (simp add: createTranslationFacade_def createProvider_def getEffectiveAIConfig_def
      exampleConfig_def exampleCollection_def)

lemma example_separate_collection:
  "separateContent exampleDocument (c_fields exampleCollection) =
     \<lparr>translatable = [(''title'', JStr ''Hello'')], nonTranslatable = [(''views'', JNum 10)],
      detectedTypes = [(''title'', T_string), (''views'', T_number)]\<rparr>"
  using example_separate by (simp add: exampleCollection_def)

lemma example_paths:
  "getI18nRef ''products/abc'' ''ms-MY'' = ''products/abc/i18n/ms-MY''"
  "getI18nRef ''products/xyz'' ''ms-MY'' = ''products/xyz/i18n/ms-MY''"
  by (simp_all add: getI18nRef_def getI18nPath_def)

lemma example_docs:
  "docs exampleWorld ''products/abc/i18n/ms-MY'' = Some exampleRecord"
  "docs exampleWorld ''products/xyz/i18n/ms-MY'' = None"
  "writes exampleWorld = []"
  by (simp_all add: exampleWorld_def)

text \<open>
  C2. \<open>processTranslation\<close> never raises: for every document, language, configuration,
  reply of the provider and behaviour of the store it returns a result. Whenever a step of
  the \<open>try\<close> (the read of the store, the construction of the facade, a write of the store)
  throws an error \<open>e\<close>, the result is \<open>{success: false, skipped: false, error: e}\<close> and the
  failed mark is performed on the store as the error left it, as far as the store allows:
  when the store serves the read and the write of the mark, exactly the failed mark is
  written, and the record then has the status \<open>failed\<close> and the error \<open>e\<close>; when the
  store rejects one of them, the rejection is ignored and nothing is written.
  Classification and schema synthesis are total functions and throw nothing; the provider
  turns its own errors into failure responses; the read of the clock in the handler
  (\<open>Timestamp.now()\<close>) has no failure.
\<close>

theorem processTranslation_never_raises:
  "\<exists>r w'. processTranslation P docRef docData targetLanguage config collectionConfig options w
             = (Inr r, w')
     \<and> (\<forall>e w1. processTranslation_try P docRef docData targetLanguage config collectionConfig
                  options w = (Inl e, w1) \<longrightarrow>
            r = \<lparr>pr_success = False, pr_skipped = False, pr_error = Some e,
                 pr_durationMs = Some (pipelineMs P)\<rparr>
          \<and> w' = snd (markTranslationFailed docRef targetLanguage e (timestampOf P options) w1)
          \<and> (storeServes 2 w1 \<longrightarrow>
                writes w' = writes w1 @
                  [failedMarkOf w1 docRef targetLanguage e (timestampOf P options)]
              \<and> isFailedMark (failedMarkOf w1 docRef targetLanguage e (timestampOf P options))
              \<and> docs w' = (docs w1)(getI18nRef docRef targetLanguage \<mapsto>
                    failedRecord w1 docRef targetLanguage e (timestampOf P options))
              \<and> js_prop (obj_get (failedRecord w1 docRef targetLanguage e (timestampOf P options))
                    ''_melaka'') ''status'' = JStr ''failed''
              \<and> js_prop (obj_get (failedRecord w1 docRef targetLanguage e (timestampOf P options))
                    ''_melaka'') ''error'' = JStr e)
          \<and> (\<not> storeServes 2 w1 \<longrightarrow> writes w' = writes w1 \<and> docs w' = docs w1))"
proof (cases "processTranslation_try P docRef docData targetLanguage config collectionConfig options w")
  case (Pair res w1)
  show ?thesis
  proof (cases res)
    case (Inl e)
    have mark: "isFailedMark (failedMarkOf w1 docRef targetLanguage e (timestampOf P options))"
      by (simp add: failedMarkOf_def failedUpdates_def failedDocument_def obj_keys_def
          obj_get_def split: option.splits)
    from Pair Inl show ?thesis
      by (simp add: processTranslation_def io_catch_def processTranslation_catch_returns
          failedResult_def markTranslationFailed_effect failedRecord_reads_failed mark)
  next
    case (Inr r)
    with Pair show ?thesis
      by (simp add: processTranslation_def io_catch_def)
  qed
qed

theorem processTranslation_never_raises_witness:
  \<open>fst (processTranslation examplePlatform ''products/abc'' exampleDocument ''ms-MY''
       (exampleConfig ''gemini'') exampleCollection noOptions
       (exampleWorld\<lparr>outcomes := [Some ''UNAVAILABLE'']\<rparr>))
     = Inr \<lparr>pr_success = False, pr_skipped = False, pr_error = Some ''UNAVAILABLE'',
             pr_durationMs = Some 7\<rparr>
   \<and> writes (snd (processTranslation examplePlatform ''products/abc'' exampleDocument ''ms-MY''
       (exampleConfig ''gemini'') exampleCollection noOptions
       (exampleWorld\<lparr>outcomes := [Some ''UNAVAILABLE'']\<rparr>)))
     = [UpdateDoc ''products/abc/i18n/ms-MY'' (failedUpdates ''UNAVAILABLE'' exampleTimestamp)]
   \<and> docs (snd (processTranslation examplePlatform ''products/abc'' exampleDocument ''ms-MY''
       (exampleConfig ''gemini'') exampleCollection noOptions
       (exampleWorld\<lparr>outcomes := [Some ''UNAVAILABLE'']\<rparr>))) ''products/abc/i18n/ms-MY''
     = Some [(''title'', JStr ''Halo''),
             (''_melaka'', JObj [(''source_hash'', JStr ''h1''), (''status'', JStr ''failed''),
                (''error'', JStr ''UNAVAILABLE''), (''translated_at'', exampleTimestamp)])]
   \<and> fst (processTranslation examplePlatform ''products/xyz'' exampleDocument ''ms-MY''
       (exampleConfig ''openai'') exampleCollection noOptions exampleWorld)
     = Inr \<lparr>pr_success = False, pr_skipped = False,
             pr_error = Some ''OpenAI provider not yet implemented. Use Gemini for MVP.'',
             pr_durationMs = Some 7\<rparr>
   \<and> writes (snd (processTranslation examplePlatform ''products/xyz'' exampleDocument ''ms-MY''
       (exampleConfig ''openai'') exampleCollection noOptions exampleWorld))
     = [SetDoc ''products/xyz/i18n/ms-MY''
          (failedDocument ''OpenAI provider not yet implemented. Use Gemini for MVP.''
             exampleTimestamp)]
   \<and> fst (processTranslation
       (replyPlatform ''{"title":"Halo"}'' (JObj [(''title'', JStr ''Halo'')]))
       ''products/xyz'' exampleDocument ''ms-MY'' (exampleConfig ''gemini'') exampleCollection
       noOptions (exampleWorld\<lparr>outcomes := [None, Some ''ABORTED'']\<rparr>))
     = Inr \<lparr>pr_success = False, pr_skipped = False, pr_error = Some ''ABORTED'',
             pr_durationMs = Some 7\<rparr>
   \<and> writes (snd (processTranslation
       (replyPlatform ''{"title":"Halo"}'' (JObj [(''title'', JStr ''Halo'')]))
       ''products/xyz'' exampleDocument ''ms-MY'' (exampleConfig ''gemini'') exampleCollection
       noOptions (exampleWorld\<lparr>outcomes := [None, Some ''ABORTED'']\<rparr>)))
     = [SetDoc ''products/xyz/i18n/ms-MY'' (failedDocument ''ABORTED'' exampleTimestamp)]\<close>
proof -
  let ?R = \<open>replyPlatform ''{"title":"Halo"}'' (JObj [(''title'', JStr ''Halo'')])\<close>
  let ?w1 = "exampleWorld\<lparr>outcomes := [Some ''UNAVAILABLE'']\<rparr>"
  let ?w3 = "exampleWorld\<lparr>outcomes := [None, Some ''ABORTED'']\<rparr>"
  have ts: "timestampOf examplePlatform noOptions = exampleTimestamp"
    "timestampOf ?R noOptions = exampleTimestamp"
    "pipelineMs examplePlatform = 7" "pipelineMs ?R = 7"
    by (simp_all add: timestampOf_def noOptions_def replyPlatform_def examplePlatform_def)
  have srv: "storeServes 2 (exampleWorld\<lparr>outcomes := []\<rparr>)" "storeServes 2 exampleWorld"
    by (simp_all add: storeServes_def exampleWorld_def)
  have same: "exampleWorld\<lparr>outcomes := []\<rparr> = exampleWorld"
    by (simp add: exampleWorld_def)
  \<comment> \<open>the read of the store is rejected\<close>
  have t1: "processTranslation_try examplePlatform ''products/abc'' exampleDocument ''ms-MY''
       (exampleConfig ''gemini'') exampleCollection noOptions ?w1
     = (Inl ''UNAVAILABLE'', exampleWorld)"
    by (simp add: processTranslation_try_def example_separate_collection obj_keys_def
        alreadyCurrent_def noOptions_def optionIsTrue_def readMelakaMetadata_def
        readTranslation_def ref_get_def nextOutcome_def io_bind_def Let_def same)
  have mark1: "failedMarkOf exampleWorld ''products/abc'' ''ms-MY'' e exampleTimestamp
      = UpdateDoc ''products/abc/i18n/ms-MY'' (failedUpdates e exampleTimestamp)" for e
    by (simp add: failedMarkOf_def example_paths example_docs)
  have rec1: "failedRecord exampleWorld ''products/abc'' ''ms-MY'' ''UNAVAILABLE'' exampleTimestamp
      = [(''title'', JStr ''Halo''),
         (''_melaka'', JObj [(''source_hash'', JStr ''h1''), (''status'', JStr ''failed''),
            (''error'', JStr ''UNAVAILABLE''), (''translated_at'', exampleTimestamp)])]"
    by (simp add: failedRecord_def example_paths example_docs exampleRecord_def
        failedUpdates_def applyUpdates_def obj_get_def)
  \<comment> \<open>the constructor of the facade throws\<close>
  have t2: "processTranslation_try examplePlatform ''products/xyz'' exampleDocument ''ms-MY''
       (exampleConfig ''openai'') exampleCollection noOptions exampleWorld
     = (Inl ''OpenAI provider not yet implemented. Use Gemini for MVP.'', exampleWorld)"
    by (simp add: processTranslation_try_def example_separate_collection example_separate
        obj_keys_def example_not_current io_bind_def translateAndStore_def
        createTranslationFacade_def
        createProvider_def getEffectiveAIConfig_def exampleConfig_def exampleCollection_def
        io_throw_def Let_def)
  have mark2: "failedMarkOf exampleWorld ''products/xyz'' ''ms-MY'' e exampleTimestamp
      = SetDoc ''products/xyz/i18n/ms-MY'' (failedDocument e exampleTimestamp)" for e
    by (simp add: failedMarkOf_def example_paths example_docs)
  \<comment> \<open>the write of the translation is rejected\<close>
  have tr: \<open>facade_translate ?R \<lparr>pc_apiKey = Some ''key'', pc_model = ''model-1''\<rparr>
      [(''title'', JStr ''Hello'')] (ZObject [(''title'', ZString)])
    = \<lparr>tr_success = True, tr_output = Some (JObj [(''title'', JStr ''Halo'')]), tr_error = None,
       tr_usage = None, tr_durationMs = Some 5\<rparr>\<close>
    by (simp add: facade_translate_def GeminiProvider_translate_def isConfigured_def
        replyPlatform_def examplePlatform_def extractJsonFromResponse_def obj_get_def
        keepField_def usageOf_def obj_keys_def)
  have nc: "alreadyCurrent ''products/xyz'' ''ms-MY'' noOptions h ?w3
      = (Inr False, exampleWorld\<lparr>outcomes := [Some ''ABORTED'']\<rparr>)" for h
    by (simp add: alreadyCurrent_def noOptions_def optionIsTrue_def readMelakaMetadata_def
        readTranslation_def ref_get_def nextOutcome_def io_bind_def io_return_def
        example_paths example_docs metadataIsCurrent_def)
  have t3: "processTranslation_try ?R ''products/xyz'' exampleDocument ''ms-MY''
       (exampleConfig ''gemini'') exampleCollection noOptions ?w3
     = (Inl ''ABORTED'', exampleWorld)"
    by (simp add: processTranslation_try_def example_separate_collection obj_keys_def nc
        io_bind_def translateAndStore_def example_schema example_facade tr handleResponse_def
        outputMissing_def writeTranslation_def ref_set_def nextOutcome_def Let_def same)
  from processTranslation_never_raises [of examplePlatform "''products/abc''" exampleDocument
      "''ms-MY''" "exampleConfig ''gemini''" exampleCollection noOptions ?w1] t1 srv(2)
  have s1: "fst (processTranslation examplePlatform ''products/abc'' exampleDocument ''ms-MY''
       (exampleConfig ''gemini'') exampleCollection noOptions ?w1)
     = Inr \<lparr>pr_success = False, pr_skipped = False, pr_error = Some ''UNAVAILABLE'',
             pr_durationMs = Some 7\<rparr>
   \<and> writes (snd (processTranslation examplePlatform ''products/abc'' exampleDocument ''ms-MY''
       (exampleConfig ''gemini'') exampleCollection noOptions ?w1))
     = [UpdateDoc ''products/abc/i18n/ms-MY'' (failedUpdates ''UNAVAILABLE'' exampleTimestamp)]
   \<and> docs (snd (processTranslation examplePlatform ''products/abc'' exampleDocument ''ms-MY''
       (exampleConfig ''gemini'') exampleCollection noOptions ?w1)) ''products/abc/i18n/ms-MY''
     = Some [(''title'', JStr ''Halo''),
             (''_melaka'', JObj [(''source_hash'', JStr ''h1''), (''status'', JStr ''failed''),
                (''error'', JStr ''UNAVAILABLE''), (''translated_at'', exampleTimestamp)])]"
    by (auto simp: ts mark1 rec1 example_docs example_paths)
  from processTranslation_never_raises [of examplePlatform "''products/xyz''" exampleDocument
      "''ms-MY''" "exampleConfig ''openai''" exampleCollection noOptions exampleWorld] t2 srv(2)
  have s2: "fst (processTranslation examplePlatform ''products/xyz'' exampleDocument ''ms-MY''
       (exampleConfig ''openai'') exampleCollection noOptions exampleWorld)
     = Inr \<lparr>pr_success = False, pr_skipped = False,
             pr_error = Some ''OpenAI provider not yet implemented. Use Gemini for MVP.'',
             pr_durationMs = Some 7\<rparr>
   \<and> writes (snd (processTranslation examplePlatform ''products/xyz'' exampleDocument ''ms-MY''
       (exampleConfig ''openai'') exampleCollection noOptions exampleWorld))
     = [SetDoc ''products/xyz/i18n/ms-MY''
          (failedDocument ''OpenAI provider not yet implemented. Use Gemini for MVP.''
             exampleTimestamp)]"
    by (auto simp: ts mark2 example_docs)
  from processTranslation_never_raises [of ?R "''products/xyz''" exampleDocument
      "''ms-MY''" "exampleConfig ''gemini''" exampleCollection noOptions ?w3] t3 srv(2)
  have s3: "fst (processTranslation ?R ''products/xyz'' exampleDocument ''ms-MY''
       (exampleConfig ''gemini'') exampleCollection noOptions ?w3)
     = Inr \<lparr>pr_success = False, pr_skipped = False, pr_error = Some ''ABORTED'',
             pr_durationMs = Some 7\<rparr>
   \<and> writes (snd (processTranslation ?R ''products/xyz'' exampleDocument ''ms-MY''
       (exampleConfig ''gemini'') exampleCollection noOptions ?w3))
     = [SetDoc ''products/xyz/i18n/ms-MY'' (failedDocument ''ABORTED'' exampleTimestamp)]"
    by (auto simp: ts mark2 example_docs)
  from s1 s2 s3 show ?thesis by simp
qed

section \<open>Providers that are not implemented\<close>

text \<open>
  The constructor of the facade throws for the providers \<open>openai\<close> and \<open>claude\<close>: creating
  the gateway and calling \<open>translate\<close> ends with a thrown error, not with a failure response.
\<close>

theorem unimplemented_provider_counterexample:
  "createTranslationFacade
      \<lparr>ai_provider = ''openai'', ai_model = ''gpt-4o-mini'', ai_apiKey = Some ''key''\<rparr>
   = Inl ''OpenAI provider not yet implemented. Use Gemini for MVP.''
   \<and> createAndTranslate examplePlatform
      \<lparr>ai_provider = ''openai'', ai_model = ''gpt-4o-mini'', ai_apiKey = Some ''key''\<rparr>
      [(''title'', JStr ''Hello'')] (ZObject [(''title'', ZString)])
   = Inl ''OpenAI provider not yet implemented. Use Gemini for MVP.''"
  by (simp add: createAndTranslate_def createTranslationFacade_def createProvider_def)

text \<open>
  C1, as the code has it. For every AI configuration that selects \<open>openai\<close> or \<open>claude\<close>,
  creating the translation gateway throws an error whose message says that the provider is
  not yet implemented; \<open>translate\<close> is not reached, and no response is returned.
\<close>

theorem unimplemented_provider_throws:
  assumes "ai_provider aiConfig = ''openai'' \<or> ai_provider aiConfig = ''claude''"
  shows "createTranslationFacade aiConfig =
           Inl ((if ai_provider aiConfig = ''openai'' then ''OpenAI'' else ''Claude'')
                @ '' provider not yet implemented. Use Gemini for MVP.'')
       \<and> createAndTranslate P aiConfig content schema =
           Inl ((if ai_provider aiConfig = ''openai'' then ''OpenAI'' else ''Claude'')
                @ '' provider not yet implemented. Use Gemini for MVP.'')"
  using assms
  by (auto simp: createAndTranslate_def createTranslationFacade_def createProvider_def Let_def)

theorem unimplemented_provider_throws_witness:
  "createAndTranslate examplePlatform
      \<lparr>ai_provider = ''claude'', ai_model = ''claude-sonnet-4-20250514'', ai_apiKey = Some ''key''\<rparr>
      [(''title'', JStr ''Hello'')] (ZObject [(''title'', ZString)])
   = Inl ''Claude provider not yet implemented. Use Gemini for MVP.''"
  using unimplemented_provider_throws [of
      "\<lparr>ai_provider = ''claude'', ai_model = ''claude-sonnet-4-20250514'', ai_apiKey = Some ''key''\<rparr>"
      examplePlatform "[(''title'', JStr ''Hello'')]" "ZObject [(''title'', ZString)]"]
  by simp

section \<open>Replies that fail the schema\<close>

lemma ref_get_writes:
  "ref_get path w = (res, w') \<Longrightarrow> writes w' = writes w \<and> docs w' = docs w"
  by (auto simp: ref_get_def nextOutcome_def split: list.splits option.splits)

lemma markTranslationFailed_writes:
  assumes "markTranslationFailed docRef locale err ts w = (res, w')"
  shows "\<exists>ms. writes w' = writes w @ ms \<and> (\<forall>x \<in> set ms. isFailedMark x)"
proof (cases "ref_get (getI18nRef docRef locale) w")
  case (Pair g w1)
  note g = ref_get_writes [OF Pair]
  show ?thesis
  proof (cases g)
    case (Inl e)
    with Pair assms have "w' = w1"
      by (simp add: markTranslationFailed_def io_bind_def)
    with g show ?thesis by simp
  next
    case (Inr existing)
    show ?thesis
    proof (cases existing)
      case None
      with Inr Pair assms
      have "ref_set (getI18nRef docRef locale) (failedDocument err ts) w1 = (res, w')"
        by (simp add: markTranslationFailed_def io_bind_def)
      then have "writes w' = writes w1 \<or>
          writes w' = writes w1 @ [SetDoc (getI18nRef docRef locale) (failedDocument err ts)]"
        by (auto simp: ref_set_def nextOutcome_def split: list.splits option.splits)
      moreover have "isFailedMark (SetDoc (getI18nRef docRef locale) (failedDocument err ts))"
        by (simp add: failedDocument_def obj_keys_def obj_get_def)
      ultimately show ?thesis using g by auto
    next
      case (Some data)
      with Inr Pair assms
      have "ref_update (getI18nRef docRef locale) (failedUpdates err ts) w1 = (res, w')"
        by (simp add: markTranslationFailed_def io_bind_def)
      then have "writes w' = writes w1 \<or>
          writes w' = writes w1 @ [UpdateDoc (getI18nRef docRef locale) (failedUpdates err ts)]"
        by (auto simp: ref_update_def nextOutcome_def split: list.splits option.splits)
      moreover have "isFailedMark (UpdateDoc (getI18nRef docRef locale) (failedUpdates err ts))"
        by (simp add: failedUpdates_def)
      ultimately show ?thesis using g by auto
    qed
  qed
qed

lemma markTranslationFailed_served:
  assumes "outcomes w = []"
  shows "fst (markTranslationFailed docRef locale err ts w) = Inr ()"
    and "writes (snd (markTranslationFailed docRef locale err ts w))
           = writes w @ [failedMarkOf w docRef locale err ts]"
  using assms
  by (auto simp: markTranslationFailed_def io_bind_def ref_get_def ref_set_def ref_update_def
      nextOutcome_def failedMarkOf_def split: option.splits)

lemma alreadyCurrent_writes:
  "alreadyCurrent docRef locale options h w = (res, w1) \<Longrightarrow> writes w1 = writes w \<and> docs w1 = docs w"
  by (auto simp: alreadyCurrent_def readMelakaMetadata_def readTranslation_def io_bind_def
      io_return_def ref_get_def nextOutcome_def split: if_splits list.splits option.splits)

lemma GeminiProvider_schema_mismatch:
  assumes "isConfigured facade" "fetch P = HttpOk (Inr data)" "gr_text data = Some textResponse"
    "textResponse \<noteq> []" "extractJsonFromResponse (JSON_parse P) textResponse = Inr parsed"
    "safeParse schema parsed = Inl zodMessage"
  shows "GeminiProvider_translate P facade content schema =
           failureResponse (''Schema validation failed: '' @ zodMessage) (Some (providerMs P))"
  using assms by (simp add: GeminiProvider_translate_def)

text \<open>
  What the synthesized schema rejects: a value that is not an object, an object that
  lacks a field of the schema, and a field whose value has another type than the schema
  asks for. No value is converted to make it fit.
\<close>

lemma collectParsed_Inl: "Inl e \<in> set rs \<Longrightarrow> \<exists>e'. collectParsed rs = Inl e'"
proof (induction rs)
  case Nil
  then show ?case by simp
next
  case (Cons r rs)
  show ?case
  proof (cases r)
    case (Inl a)
    then show ?thesis by simp
  next
    case (Inr b)
    with Cons obtain e' where "collectParsed rs = Inl e'" by auto
    with Inr show ?thesis by simp
  qed
qed

lemma object_schema_rejects_field:
  assumes "(k, t) \<in> set shape" "safeParse t (obj_get ps k) = Inl e"
  shows "\<exists>e'. safeParse (ZObject shape) (JObj ps) = Inl e'"
proof -
  from assms have "Inl e \<in> set (map (\<lambda>(k, t). map_sum id (Pair k) (safeParse t (obj_get ps k))) shape)"
    by (force simp: image_iff)
  from collectParsed_Inl [OF this] show ?thesis by auto
qed

lemma object_schema_rejects_non_object:
  assumes "\<And>ps. v \<noteq> JObj ps"
  shows "\<exists>e. safeParse (ZObject shape) v = Inl e"
  using assms by (cases v) auto

lemma required_field_rejects_missing:
  "\<exists>e. safeParse (createFieldSchema schemaType True) JUndefined = Inl e"
  by (cases schemaType) (auto simp: documentReferenceShape_def)

lemma string_field_rejects_mistyped:
  assumes "\<And>s. v \<noteq> JStr s"
  shows "\<exists>e. safeParse (createFieldSchema T_string True) v = Inl e"
  using assms by (cases v) auto

lemma string_array_field_rejects_mistyped:
  assumes "\<And>xs. v \<noteq> JArr xs"
  shows "\<exists>e. safeParse (createFieldSchema T_string_array True) v = Inl e"
  using assms by (cases v) auto

lemma string_array_field_rejects_element:
  assumes "x \<in> set xs" "\<And>s. x \<noteq> JStr s"
  shows "\<exists>e. safeParse (createFieldSchema T_string_array True) (JArr xs) = Inl e"
proof -
  from assms(2) obtain e where "safeParse ZString x = Inl e" by (cases x) auto
  with assms(1) have "Inl e \<in> set (map (safeParse ZString) xs)" by force
  from collectParsed_Inl [OF this] show ?thesis by auto
qed

lemma schemaFieldsLoop_map_of:
  "k \<in> set ks \<Longrightarrow>
   map_of (schemaFieldsLoop types ks acc) k
     = Some (createFieldSchema (case map_of types k of Some t \<Rightarrow> t | None \<Rightarrow> T_string) True)"
  "k \<notin> set ks \<Longrightarrow> map_of (schemaFieldsLoop types ks acc) k = map_of acc k"
proof (induction ks arbitrary: acc)
  case Nil
  { case 1 then show ?case by simp }
  { case 2 then show ?case by simp }
next
  case (Cons a ks)
  { case 1
    then show ?case
      using Cons.IH(1) [of "obj_set acc a (createFieldSchema (case map_of types a of Some t \<Rightarrow> t | None \<Rightarrow> T_string) True)"]
        Cons.IH(2) [of "obj_set acc a (createFieldSchema (case map_of types a of Some t \<Rightarrow> t | None \<Rightarrow> T_string) True)"]
      by (cases "k \<in> set ks") (auto simp: Let_def map_of_obj_set simp del: createFieldSchema.simps) }
  { case 2
    then show ?case
      using Cons.IH(2) [of "obj_set acc a (createFieldSchema (case map_of types a of Some t \<Rightarrow> t | None \<Rightarrow> T_string) True)"]
      by (auto simp: Let_def map_of_obj_set simp del: createFieldSchema.simps) }
qed

lemma translation_schema_rejects_missing_field:
  assumes "k \<in> set (obj_keys content)" "k \<notin> set (obj_keys ps)"
  shows "\<exists>e. safeParse (createTranslationSchema content types) (JObj ps) = Inl e"
proof -
  let ?shape = "schemaFieldsLoop types (obj_keys content) []"
  let ?t = "createFieldSchema (case map_of types k of Some t \<Rightarrow> t | None \<Rightarrow> T_string) True"
  have "map_of ?shape k = Some ?t"
    by (rule schemaFieldsLoop_map_of(1) [OF assms(1)])
  then have in_shape: "(k, ?t) \<in> set ?shape"
    by (rule map_of_SomeD)
  from assms(2) have "map_of ps k = None"
    by (simp add: obj_keys_def map_of_eq_None_iff)
  then have "obj_get ps k = JUndefined"
    by (simp add: obj_get_def)
  with required_field_rejects_missing obtain e where "safeParse ?t (obj_get ps k) = Inl e"
    by metis
  from object_schema_rejects_field [OF in_shape this] show ?thesis
    by (simp add: createTranslationSchema_def)
qed

lemma translation_schema_rejects_mistyped_string:
  assumes "k \<in> set (obj_keys content)" "map_of types k = Some T_string"
    "\<And>s. obj_get ps k \<noteq> JStr s"
  shows "\<exists>e. safeParse (createTranslationSchema content types) (JObj ps) = Inl e"
proof -
  let ?shape = "schemaFieldsLoop types (obj_keys content) []"
  have "map_of ?shape k = Some (createFieldSchema T_string True)"
    using schemaFieldsLoop_map_of(1) [OF assms(1), of types "[]"] assms(2) by simp
  then have in_shape: "(k, createFieldSchema T_string True) \<in> set ?shape"
    by (rule map_of_SomeD)
  from string_field_rejects_mistyped [OF assms(3)]
  obtain e where "safeParse (createFieldSchema T_string True) (obj_get ps k) = Inl e" by blast
  from object_schema_rejects_field [OF in_shape this] show ?thesis
    by (simp add: createTranslationSchema_def)
qed

text \<open>
  An object schema in zod's default mode does not reject a reply for the fields it does
  not name: it drops them and accepts the rest. A reply with an extra field is a success
  of the gateway, and the pipeline stores the fields that the schema names.
\<close>

theorem extra_field_accepted:
  \<open>facade_translate
      (replyPlatform ''{"title":"Halo","note":"x"}''
         (JObj [(''title'', JStr ''Halo''), (''note'', JStr ''x'')]))
      \<lparr>pc_apiKey = Some ''key'', pc_model = ''model-1''\<rparr>
      [(''title'', JStr ''Hello'')] (ZObject [(''title'', ZString)])
    = \<lparr>tr_success = True, tr_output = Some (JObj [(''title'', JStr ''Halo'')]), tr_error = None,
       tr_usage = None, tr_durationMs = Some 5\<rparr>
   \<and> fst (processTranslation
      (replyPlatform ''{"title":"Halo","note":"x"}''
         (JObj [(''title'', JStr ''Halo''), (''note'', JStr ''x'')]))
      ''products/xyz'' exampleDocument ''ms-MY'' (exampleConfig ''gemini'') exampleCollection
      noOptions exampleWorld)
    = Inr \<lparr>pr_success = True, pr_skipped = False, pr_error = None, pr_durationMs = Some 7\<rparr>
   \<and> writes (snd (processTranslation
      (replyPlatform ''{"title":"Halo","note":"x"}''
         (JObj [(''title'', JStr ''Halo''), (''note'', JStr ''x'')]))
      ''products/xyz'' exampleDocument ''ms-MY'' (exampleConfig ''gemini'') exampleCollection
      noOptions exampleWorld))
    = [SetDoc ''products/xyz/i18n/ms-MY''
        [(''title'', JStr ''Halo''), (''views'', JNum 10),
         (''_melaka'', completedMetadata (hashContent [(''title'', JStr ''Hello'')])
             exampleTimestamp ''model-1'')]]\<close>
proof -
  let ?P = \<open>replyPlatform ''{"title":"Halo","note":"x"}''
         (JObj [(''title'', JStr ''Halo''), (''note'', JStr ''x'')])\<close>
  have sep: "separateContent exampleDocument (c_fields exampleCollection)
      = \<lparr>translatable = [(''title'', JStr ''Hello'')], nonTranslatable = [(''views'', JNum 10)],
      detectedTypes = [(''title'', T_string), (''views'', T_number)]\<rparr>"
    using example_separate by (simp add: exampleCollection_def)
  have tr: \<open>facade_translate ?P \<lparr>pc_apiKey = Some ''key'', pc_model = ''model-1''\<rparr>
      [(''title'', JStr ''Hello'')] (ZObject [(''title'', ZString)])
    = \<lparr>tr_success = True, tr_output = Some (JObj [(''title'', JStr ''Halo'')]), tr_error = None,
       tr_usage = None, tr_durationMs = Some 5\<rparr>\<close>
    by (simp add: facade_translate_def GeminiProvider_translate_def isConfigured_def
        replyPlatform_def examplePlatform_def extractJsonFromResponse_def obj_get_def
        keepField_def usageOf_def)
  have ts: "timestampOf ?P noOptions = exampleTimestamp" "pipelineMs ?P = 7"
    by (simp_all add: timestampOf_def noOptions_def replyPlatform_def examplePlatform_def)
  have n: "nextOutcome exampleWorld = (None, exampleWorld)" "writes exampleWorld = []"
    by (simp_all add: nextOutcome_def exampleWorld_def)
  have p: "processTranslation ?P ''products/xyz'' exampleDocument ''ms-MY''
      (exampleConfig ''gemini'') exampleCollection noOptions exampleWorld
    = (Inr (completedResult ?P),
       exampleWorld\<lparr>docs := (docs exampleWorld)(''products/xyz/i18n/ms-MY'' \<mapsto>
           [(''title'', JStr ''Halo''), (''views'', JNum 10),
            (''_melaka'', completedMetadata (hashContent [(''title'', JStr ''Hello'')])
               exampleTimestamp ''model-1'')]),
         writes := [SetDoc ''products/xyz/i18n/ms-MY''
           [(''title'', JStr ''Halo''), (''views'', JNum 10),
            (''_melaka'', completedMetadata (hashContent [(''title'', JStr ''Hello'')])
               exampleTimestamp ''model-1'')]]\<rparr>)"
    by (simp add: processTranslation_def processTranslation_try_def io_catch_def io_bind_def
        io_return_def sep obj_keys_def example_not_current translateAndStore_def example_schema
        example_facade tr handleResponse_def outputMissing_def ts writeTranslation_def
        obj_assign_def orElse_def facade_getModel_def ref_set_def n
        getI18nRef_def getI18nPath_def Let_def)
  show ?thesis
    by (simp add: tr p completedResult_def ts)
qed

text \<open>
  C8, as the code has it. Whenever the pipeline reaches the gateway and the reply of the
  provider is JSON-extractable but fails the validation against the synthesized schema,
  the gateway returns \<open>{success: false}\<close> with the error \<open>Schema validation failed: ...\<close> and
  no output; \<open>processTranslation\<close> returns \<open>{success: false, skipped: false}\<close>; every write
  it makes is a failed mark, which touches only the metadata, so nothing of the reply is
  persisted; and when the store serves the calls, exactly one failed mark is written,
  with the schema error. (Fields that the schema does not name do not fail the
  validation.)
\<close>

theorem schema_mismatch_is_failure:
  assumes nonempty: "obj_keys (translatable (separateContent docData (c_fields collectionConfig))) \<noteq> []"
    and reach: "alreadyCurrent docRef targetLanguage options
                  (hashContent (translatable (separateContent docData (c_fields collectionConfig)))) w
                = (Inr False, w1)"
    and facade: "createTranslationFacade (getEffectiveAIConfig config collectionConfig) = Inr facade"
    and conf: "isConfigured facade"
    and reply: "fetch P = HttpOk (Inr data)" "gr_text data = Some textResponse" "textResponse \<noteq> []"
    and ext: "extractJsonFromResponse (JSON_parse P) textResponse = Inr parsed"
    and bad: "safeParse (createTranslationSchema
                (translatable (separateContent docData (c_fields collectionConfig)))
                (detectedTypes (separateContent docData (c_fields collectionConfig)))) parsed
              = Inl zodMessage"
  shows "facade_translate P facade
           (translatable (separateContent docData (c_fields collectionConfig)))
           (createTranslationSchema
              (translatable (separateContent docData (c_fields collectionConfig)))
              (detectedTypes (separateContent docData (c_fields collectionConfig))))
         = \<lparr>tr_success = False, tr_output = None,
            tr_error = Some (''Schema validation failed: '' @ zodMessage), tr_usage = None,
            tr_durationMs = Some (providerMs P)\<rparr>
       \<and> (\<exists>r w'. processTranslation P docRef docData targetLanguage config collectionConfig
                     options w = (Inr r, w')
              \<and> pr_success r = False \<and> pr_skipped r = False
              \<and> (\<forall>x \<in> set (drop (length (writes w)) (writes w')). isFailedMark x)
              \<and> (outcomes w1 = [] \<longrightarrow>
                    pr_error r = Some (''Schema validation failed: '' @ zodMessage)
                  \<and> writes w' = writes w @
                      [failedMarkOf w docRef targetLanguage
                         (''Schema validation failed: '' @ zodMessage) (timestampOf P options)]))"
proof -
  let ?sep = "separateContent docData (c_fields collectionConfig)"
  let ?schema = "createTranslationSchema (translatable ?sep) (detectedTypes ?sep)"
  define msg where "msg = ''Schema validation failed: '' @ zodMessage"
  have msg_ne: "msg \<noteq> []" by (simp add: msg_def)
  let ?ts = "timestampOf P options"
  have resp: "facade_translate P facade (translatable ?sep) ?schema
                = failureResponse msg (Some (providerMs P))"
    unfolding facade_translate_def msg_def
    by (rule GeminiProvider_schema_mismatch [OF conf reply ext bad])
  have w1: "writes w1 = writes w" "docs w1 = docs w"
    using alreadyCurrent_writes [OF reach] by simp_all
  have try_eq: "processTranslation_try P docRef docData targetLanguage config collectionConfig options w
      = io_bind (markTranslationFailed docRef targetLanguage msg ?ts)
          (\<lambda>u. io_return (failedResult P (Some msg))) w1"
    using nonempty
    by (simp add: processTranslation_try_def Let_def io_bind_def reach translateAndStore_def
        facade resp handleResponse_def failureResponse_def errorOrUnknown_def msg_ne)
  obtain res w2 where m: "markTranslationFailed docRef targetLanguage msg ?ts w1 = (res, w2)"
    by (cases "markTranslationFailed docRef targetLanguage msg ?ts w1")
  from markTranslationFailed_writes [OF m] obtain ms1
    where ms1: "writes w2 = writes w1 @ ms1" "\<forall>x \<in> set ms1. isFailedMark x" by blast
  have second: ?thesis if q: "\<exists>r w'. processTranslation P docRef docData targetLanguage config
         collectionConfig options w = (Inr r, w')
              \<and> pr_success r = False \<and> pr_skipped r = False
              \<and> (\<forall>x \<in> set (drop (length (writes w)) (writes w')). isFailedMark x)
              \<and> (outcomes w1 = [] \<longrightarrow>
                    pr_error r = Some msg
                  \<and> writes w' = writes w @ [failedMarkOf w docRef targetLanguage msg ?ts])"
    using resp q unfolding msg_def by (simp add: failureResponse_def)
  show ?thesis
  proof (cases res)
    case (Inr u)
    have p: "processTranslation P docRef docData targetLanguage config collectionConfig options w
        = (Inr (failedResult P (Some msg)), w2)"
      by (simp add: processTranslation_def io_catch_def try_eq io_bind_def m Inr io_return_def)
    have served: "writes w2 = writes w @ [failedMarkOf w docRef targetLanguage msg ?ts]"
      if "outcomes w1 = []"
      using markTranslationFailed_served(2) [OF that, of docRef targetLanguage msg ?ts] m w1
      by (simp add: failedMarkOf_def)
    show ?thesis
      by (rule second) (use p ms1 w1 served in \<open>auto simp: failedResult_def\<close>)
  next
    case (Inl e)
    have t: "processTranslation_try P docRef docData targetLanguage config collectionConfig options w
        = (Inl e, w2)"
      by (simp add: try_eq io_bind_def m Inl)
    obtain res3 w3 where m3: "markTranslationFailed docRef targetLanguage e ?ts w2 = (res3, w3)"
      by (cases "markTranslationFailed docRef targetLanguage e ?ts w2")
    from markTranslationFailed_writes [OF m3] obtain ms2
      where ms2: "writes w3 = writes w2 @ ms2" "\<forall>x \<in> set ms2. isFailedMark x" by blast
    have p: "processTranslation P docRef docData targetLanguage config collectionConfig options w
        = (Inr (failedResult P (Some e)), w3)"
      by (simp add: processTranslation_def io_catch_def t processTranslation_catch_returns m3)
    have notserved: "outcomes w1 \<noteq> []"
      using markTranslationFailed_served(1) [of w1 docRef targetLanguage msg ?ts] m Inl
      by auto
    show ?thesis
      by (rule second) (use p ms1 ms2 w1 notserved in \<open>auto simp: failedResult_def\<close>)
  qed
qed

theorem schema_mismatch_is_failure_witness:
  \<open>\<exists>r w' zodMessage.
     processTranslation (replyPlatform ''{"title":5}'' (JObj [(''title'', JNum 5)]))
       ''products/xyz'' exampleDocument ''ms-MY'' (exampleConfig ''gemini'') exampleCollection
       noOptions exampleWorld = (Inr r, w')
     \<and> pr_success r = False \<and> pr_skipped r = False
     \<and> pr_error r = Some (''Schema validation failed: '' @ zodMessage)
     \<and> writes w' = [SetDoc ''products/xyz/i18n/ms-MY''
          (failedDocument (''Schema validation failed: '' @ zodMessage) exampleTimestamp)]\<close>
proof -
  let ?P = \<open>replyPlatform ''{"title":5}'' (JObj [(''title'', JNum 5)])\<close>
  have sep: "separateContent exampleDocument (c_fields exampleCollection)
      = \<lparr>translatable = [(''title'', JStr ''Hello'')], nonTranslatable = [(''views'', JNum 10)],
      detectedTypes = [(''title'', T_string), (''views'', T_number)]\<rparr>"
    using example_separate by (simp add: exampleCollection_def)
  have h1: "obj_keys (translatable (separateContent exampleDocument (c_fields exampleCollection))) \<noteq> []"
    by (simp add: sep obj_keys_def)
  have h3: "isConfigured \<lparr>pc_apiKey = Some ''key'', pc_model = ''model-1''\<rparr>"
    by (simp add: isConfigured_def)
  have h4: \<open>fetch ?P = HttpOk (Inr \<lparr>gr_text = Some ''{"title":5}'', gr_usageMetadata = None\<rparr>)\<close>
    by (simp add: replyPlatform_def)
  have h5: \<open>gr_text \<lparr>gr_text = Some ''{"title":5}'', gr_usageMetadata = None\<rparr> = Some ''{"title":5}''\<close>
    \<open>''{"title":5}'' \<noteq> []\<close>
    by simp_all
  have h6: \<open>extractJsonFromResponse (JSON_parse ?P) ''{"title":5}'' = Inr (JObj [(''title'', JNum 5)])\<close>
    by (simp add: extractJsonFromResponse_def replyPlatform_def)
  have h7: "safeParse (createTranslationSchema
        (translatable (separateContent exampleDocument (c_fields exampleCollection)))
        (detectedTypes (separateContent exampleDocument (c_fields exampleCollection))))
        (JObj [(''title'', JNum 5)]) = Inl ''Expected string, received number''"
    by (simp add: sep example_schema obj_get_def invalidType_def)
  have ts: "timestampOf ?P noOptions = exampleTimestamp"
    by (simp add: timestampOf_def noOptions_def replyPlatform_def examplePlatform_def)
  have mk: "failedMarkOf exampleWorld ''products/xyz'' ''ms-MY'' e exampleTimestamp
      = SetDoc ''products/xyz/i18n/ms-MY'' (failedDocument e exampleTimestamp)" for e
    by (simp add: failedMarkOf_def exampleWorld_def getI18nRef_def getI18nPath_def)
  have o: "outcomes exampleWorld = []" "writes exampleWorld = []"
    by (simp_all add: exampleWorld_def)
  from schema_mismatch_is_failure [OF h1 example_not_current example_facade h3 h4 h5 h6 h7]
  show ?thesis
    by (simp add: o ts mk) blast
qed

section \<open>Properties of the task queue\<close>

lemma plannedCalls_Cons:
  "plannedCalls cPath docId cConfig bId s i (language # rest) =
     (createTaskPayload cPath docId language cConfig bId, scheduleDelaySeconds i s)
       # plannedCalls cPath docId cConfig bId s (Suc i) rest"
proof -
  have "[i..<i + length (language # rest)] = i # [Suc i..<Suc i + length rest]"
    by (subst upt_rec) simp
  then show ?thesis
    by (simp only: plannedCalls_def zip_Cons_Cons list.map prod.case)
qed

lemma enqueueLoop_run:
  "er_batchId (enqueueLoop enq cPath docId cConfig s i languages r) = er_batchId r
   \<and> handed (enqueueLoop enq cPath docId cConfig s i languages r)
       = handed r @ plannedCalls cPath docId cConfig (er_batchId r) s i languages
   \<and> tasksEnqueued (enqueueLoop enq cPath docId cConfig s i languages r)
       = tasksEnqueued r + length (filter (\<lambda>x. x = None)
           (queueReplies enq (queueAfter r)
              (plannedCalls cPath docId cConfig (er_batchId r) s i languages)))
   \<and> failed (enqueueLoop enq cPath docId cConfig s i languages r)
       = failed r + length (filter (\<lambda>x. x \<noteq> None)
           (queueReplies enq (queueAfter r)
              (plannedCalls cPath docId cConfig (er_batchId r) s i languages)))
   \<and> errors (enqueueLoop enq cPath docId cConfig s i languages r)
       = errors r @ enqueueErrors docId
           (plannedCalls cPath docId cConfig (er_batchId r) s i languages)
           (queueReplies enq (queueAfter r)
              (plannedCalls cPath docId cConfig (er_batchId r) s i languages))"
proof (induction languages arbitrary: i r)
  case Nil
  then show ?case by (simp add: plannedCalls_def enqueueErrors_def List.map_filter_simps)
next
  case (Cons language rest)
  define p where "p = createTaskPayload cPath docId language cConfig (er_batchId r)"
  define d where "d = scheduleDelaySeconds i s"
  have tl: "tp_targetLanguage p = language"
    by (simp add: p_def createTaskPayload_def)
  have pc: "plannedCalls cPath docId cConfig (er_batchId r) s i (language # rest)
      = (p, d) # plannedCalls cPath docId cConfig (er_batchId r) s (Suc i) rest"
    by (simp only: plannedCalls_Cons p_def d_def)
  obtain reply q' where e: "enq (queueAfter r) p d = (reply, q')"
    by (cases "enq (queueAfter r) p d")
  show ?case
  proof (cases reply)
    case None
    let ?r = "r\<lparr>handed := handed r @ [(p, d)], queueAfter := q',
                 tasksEnqueued := Suc (tasksEnqueued r)\<rparr>"
    have step: "enqueueLoop enq cPath docId cConfig s i (language # rest) r
        = enqueueLoop enq cPath docId cConfig s (Suc i) rest ?r"
      using e None by (simp add: Let_def p_def d_def)
    show ?thesis
      unfolding step pc
      using Cons.IH [of "Suc i" ?r]
      by (simp add: e None enqueueErrors_def List.map_filter_simps)
  next
    case (Some msg)
    let ?r = "r\<lparr>handed := handed r @ [(p, d)], queueAfter := q',
                 failed := Suc (failed r),
                 errors := errors r @ [''Failed to enqueue '' @ docId @ ''/'' @ language @ '': '' @ msg]\<rparr>"
    have step: "enqueueLoop enq cPath docId cConfig s i (language # rest) r
        = enqueueLoop enq cPath docId cConfig s (Suc i) rest ?r"
      using e Some by (simp add: Let_def p_def d_def)
    show ?thesis
      unfolding step pc
      using Cons.IH [of "Suc i" ?r]
      by (simp add: e Some enqueueErrors_def List.map_filter_simps tl)
  qed
qed

lemma plannedCalls_languages:
  "map (\<lambda>call. tp_targetLanguage (fst call)) (plannedCalls cPath docId cConfig bId s i languages)
     = languages"
proof (induction languages arbitrary: i)
  case Nil
  then show ?case by (simp add: plannedCalls_def)
next
  case (Cons language rest)
  then show ?case
    by (simp add: plannedCalls_Cons createTaskPayload_def)
qed

lemma length_queueReplies: "length (queueReplies enq q calls) = length calls"
  by (induction calls arbitrary: q) (auto split: prod.splits)

lemma filter_None_split:
  "length (filter (\<lambda>x. x = None) xs) + length (filter (\<lambda>x. x \<noteq> None) xs) = length xs"
  by (induction xs) auto

lemma length_enqueueErrors:
  "length calls = length replies \<Longrightarrow>
   length (enqueueErrors docId calls replies) = length (filter (\<lambda>x. x \<noteq> None) replies)"
proof (induction calls arbitrary: replies)
  case Nil
  then show ?case by (simp add: enqueueErrors_def List.map_filter_simps)
next
  case (Cons c cs)
  then obtain r rs where "replies = r # rs" by (cases replies) auto
  with Cons show ?case
    by (cases r) (auto simp: enqueueErrors_def List.map_filter_simps)
qed

lemma example_languages: "m_languages (exampleConfig p) = [''ms-MY'', ''zh-CN'', ''ja-JP'']"
  by (simp add: exampleConfig_def)

lemma upt_3: "[0..<3] = [0, 1, 2]"
  by (simp add: upt_rec)

text \<open>
  The delay handed to the transport is in whole seconds, \<open>Math.floor((i * staggerDelay) /
  1000)\<close>, and the stagger is in milliseconds, 100 by default: with the default the three
  tasks of three locales all get the delay 0, and with a stagger of 1500 they get 0, 1, 3.
\<close>

theorem enqueue_default_stagger_delays:
  "effectiveStagger (eo_staggerDelayMs \<lparr>eo_queue = acceptingQueue, eo_staggerDelayMs = None\<rparr>) = 100
   \<and> map snd (handed (enqueueDocumentTranslation 1708972800000 ''a1b2c3'' 0 ''products'' ''abc''
      (exampleConfig ''gemini'') exampleCollection
      \<lparr>eo_queue = acceptingQueue, eo_staggerDelayMs = None\<rparr>)) = [0, 0, 0]
   \<and> map snd (handed (enqueueDocumentTranslation 1708972800000 ''a1b2c3'' 0 ''products'' ''abc''
      (exampleConfig ''gemini'') exampleCollection
      \<lparr>eo_queue = acceptingQueue, eo_staggerDelayMs = Some 1500\<rparr>)) = [0, 1, 3]"
  by (simp add: enqueueDocumentTranslation_def example_languages effectiveStagger_def
      acceptingQueue_def scheduleDelaySeconds_def Let_def)

text \<open>
  C3, as the code has it. For every call of \<open>enqueueDocumentTranslation\<close> with \<open>n\<close>
  configured languages, \<open>n\<close> payloads are handed to the transport, one per language in
  order, all with the single batch identifier generated for the call, and the task at
  index \<open>i\<close> is handed over with the schedule delay \<open>floor(i * staggerDelayMs / 1000)\<close>
  seconds, where \<open>staggerDelayMs\<close> is the option or 100 when it is absent or zero.
\<close>

theorem enqueue_payloads_and_delays:
  "er_batchId (enqueueDocumentTranslation nowMs randomSuffix q0 cPath docId mConfig cConfig options)
     = generateBatchId nowMs randomSuffix
   \<and> handed (enqueueDocumentTranslation nowMs randomSuffix q0 cPath docId mConfig cConfig options)
     = map (\<lambda>(i, language).
              (createTaskPayload cPath docId language cConfig (generateBatchId nowMs randomSuffix),
               (i * effectiveStagger (eo_staggerDelayMs options)) div 1000))
         (zip [0..<length (m_languages mConfig)] (m_languages mConfig))"
  using enqueueLoop_run [of "eo_queue options" cPath docId cConfig
      "effectiveStagger (eo_staggerDelayMs options)" 0 "m_languages mConfig"
      "\<lparr>er_batchId = generateBatchId nowMs randomSuffix, tasksEnqueued = 0, failed = 0,
        errors = [], queueAfter = q0, handed = []\<rparr>"]
  by (simp add: enqueueDocumentTranslation_def plannedCalls_def scheduleDelaySeconds_def)

theorem enqueue_payloads_and_delays_witness:
  "handed (enqueueDocumentTranslation 1708972800000 ''a1b2c3'' 0 ''products'' ''abc''
      (exampleConfig ''gemini'') exampleCollection
      \<lparr>eo_queue = acceptingQueue, eo_staggerDelayMs = Some 1500\<rparr>)
   = [(createTaskPayload ''products'' ''abc'' ''ms-MY'' exampleCollection
         (generateBatchId 1708972800000 ''a1b2c3''), 0),
      (createTaskPayload ''products'' ''abc'' ''zh-CN'' exampleCollection
         (generateBatchId 1708972800000 ''a1b2c3''), 1),
      (createTaskPayload ''products'' ''abc'' ''ja-JP'' exampleCollection
         (generateBatchId 1708972800000 ''a1b2c3''), 3)]"
  using enqueue_payloads_and_delays [of 1708972800000 "''a1b2c3''" 0 "''products''" "''abc''"
      "exampleConfig ''gemini''" exampleCollection
      "\<lparr>eo_queue = acceptingQueue, eo_staggerDelayMs = Some 1500\<rparr>"]
  by (simp add: example_languages upt_3 effectiveStagger_def)

text \<open>
  C10. A rejected enqueue for one language neither aborts the loop nor makes
  \<open>enqueueDocumentTranslation\<close> throw: every configured language is handed to the
  transport, \<open>tasksEnqueued + failed\<close> is the number of configured languages, \<open>failed\<close> is the
  number of calls that the transport rejected, and \<open>errors\<close> has one entry per failure.
\<close>

theorem enqueue_counts_failures:
  "tasksEnqueued (enqueueDocumentTranslation nowMs randomSuffix q0 cPath docId mConfig cConfig options)
     + failed (enqueueDocumentTranslation nowMs randomSuffix q0 cPath docId mConfig cConfig options)
     = length (m_languages mConfig)
   \<and> length (errors (enqueueDocumentTranslation nowMs randomSuffix q0 cPath docId mConfig cConfig options))
     = failed (enqueueDocumentTranslation nowMs randomSuffix q0 cPath docId mConfig cConfig options)
   \<and> map (\<lambda>call. tp_targetLanguage (fst call))
        (handed (enqueueDocumentTranslation nowMs randomSuffix q0 cPath docId mConfig cConfig options))
     = m_languages mConfig
   \<and> failed (enqueueDocumentTranslation nowMs randomSuffix q0 cPath docId mConfig cConfig options)
     = length (filter (\<lambda>reply. reply \<noteq> None)
         (queueReplies (eo_queue options) q0
            (handed (enqueueDocumentTranslation nowMs randomSuffix q0 cPath docId mConfig cConfig options))))"
proof -
  let ?r0 = "\<lparr>er_batchId = generateBatchId nowMs randomSuffix, tasksEnqueued = 0, failed = 0,
        errors = [], queueAfter = q0, handed = []\<rparr>"
  let ?calls = "plannedCalls cPath docId cConfig (generateBatchId nowMs randomSuffix)
      (effectiveStagger (eo_staggerDelayMs options)) 0 (m_languages mConfig)"
  let ?replies = "queueReplies (eo_queue options) q0 ?calls"
  note run = enqueueLoop_run [of "eo_queue options" cPath docId cConfig
      "effectiveStagger (eo_staggerDelayMs options)" 0 "m_languages mConfig" ?r0]
  have len: "length ?calls = length (m_languages mConfig)"
    by (simp add: plannedCalls_def)
  have lr: "length ?replies = length ?calls"
    by (rule length_queueReplies)
  have langs: "map (\<lambda>call. tp_targetLanguage (fst call)) ?calls = m_languages mConfig"
    by (rule plannedCalls_languages)
  show ?thesis
    using run filter_None_split [of ?replies] length_enqueueErrors [of ?calls ?replies docId]
      len lr langs
    by (simp add: enqueueDocumentTranslation_def)
qed

theorem enqueue_counts_failures_witness:
  "tasksEnqueued (enqueueDocumentTranslation 1708972800000 ''a1b2c3'' 0 ''products'' ''abc''
      (exampleConfig ''gemini'') exampleCollection
      \<lparr>eo_queue = flakyQueue, eo_staggerDelayMs = None\<rparr>) = 2
   \<and> failed (enqueueDocumentTranslation 1708972800000 ''a1b2c3'' 0 ''products'' ''abc''
      (exampleConfig ''gemini'') exampleCollection
      \<lparr>eo_queue = flakyQueue, eo_staggerDelayMs = None\<rparr>) = 1
   \<and> errors (enqueueDocumentTranslation 1708972800000 ''a1b2c3'' 0 ''products'' ''abc''
      (exampleConfig ''gemini'') exampleCollection
      \<lparr>eo_queue = flakyQueue, eo_staggerDelayMs = None\<rparr>)
     = [''Failed to enqueue abc/zh-CN: DEADLINE_EXCEEDED'']
   \<and> length (m_languages (exampleConfig ''gemini'')) = 3"
proof -
  let ?r = "enqueueDocumentTranslation 1708972800000 ''a1b2c3'' 0 ''products'' ''abc''
      (exampleConfig ''gemini'') exampleCollection
      \<lparr>eo_queue = flakyQueue, eo_staggerDelayMs = None\<rparr>"
  have f: "failed ?r = 1"
    and e: "errors ?r = [''Failed to enqueue abc/zh-CN: DEADLINE_EXCEEDED'']"
    by (simp_all add: enqueueDocumentTranslation_def example_languages effectiveStagger_def
        flakyQueue_def createTaskPayload_def Let_def)
  from enqueue_counts_failures [of 1708972800000 "''a1b2c3''" 0 "''products''" "''abc''"
      "exampleConfig ''gemini''" exampleCollection
      "\<lparr>eo_queue = flakyQueue, eo_staggerDelayMs = None\<rparr>"]
  have "tasksEnqueued ?r + failed ?r = 3"
    by (simp add: example_languages)
  with f e show ?thesis by (simp add: example_languages)
qed

end
